theory Spec2Isabelle
  imports Main "HOL-Library.Word" "HOL-Library.Monad_Syntax"
begin

unbundle bit_operations_syntax

section \<open>The LPC decoder of lpc-dec.c\<close>

text \<open>
  The decoder of \<^verbatim>\<open>src/lpc-dec.c\<close> is embedded function by function. The C integer
  types are words of their width (\<^verbatim>\<open>uint8_t\<close>, \<^verbatim>\<open>uint32_t\<close>, \<^verbatim>\<open>uint64_t\<close>); a value
  of type \<^verbatim>\<open>int\<close> that results from the integer promotions is the 32-bit word of
  its two's complement pattern. Every function that can run into undefined behaviour of C
  (an index outside \<^verbatim>\<open>aenmState[9]\<close>, a shift by at least the width of \<^verbatim>\<open>int\<close>)
  returns an option, \<open>None\<close> being the fault. What the program prints is returned as a
  list of events.
\<close>

type_synonym u8 = "8 word"
type_synonym u32 = "32 word"
type_synonym u64 = "64 word"

subsection \<open>Constants and macros\<close>

definition LPC_DEC_START_TARGET_CYCLE :: u8 where
  "LPC_DEC_START_TARGET_CYCLE = 0x0"

definition LPC_DEC_START_ABORT :: u8 where
  "LPC_DEC_START_ABORT = 0xf"

definition LPC_DEC_CYC_TYPE_IO :: u8 where
  "LPC_DEC_CYC_TYPE_IO = 0x0"

definition LPC_DEC_CYC_TYPE_MEM :: u8 where
  "LPC_DEC_CYC_TYPE_MEM = 0x1"

definition LPC_DEC_CYC_TYPE_DMA :: u8 where
  "LPC_DEC_CYC_TYPE_DMA = 0x2"

definition LPC_DEC_CYC_TYPE_RSVD :: u8 where
  "LPC_DEC_CYC_TYPE_RSVD = 0x3"

text \<open>\<^verbatim>\<open>#define LPC_DEC_CYC_TYPE_GET(a_Lad) (((a_Lad) & 0xc) >> 2)\<close>; the value is below
  4, so storing it into the \<^verbatim>\<open>uint8_t\<close> field loses nothing.\<close>

definition LPC_DEC_CYC_TYPE_GET :: "u8 \<Rightarrow> u8" where
  "LPC_DEC_CYC_TYPE_GET a_Lad = drop_bit 2 (a_Lad AND 0xc)"

text \<open>\<^verbatim>\<open>#define LPC_DEC_CYC_DIR_IS_READ(a_Lad) (((a_Lad) & 0x2) == LPC_DEC_CYC_DIR_READ)\<close>\<close>

definition LPC_DEC_CYC_DIR_IS_READ :: "u8 \<Rightarrow> bool" where
  "LPC_DEC_CYC_DIR_IS_READ a_Lad \<longleftrightarrow> a_Lad AND 0x2 = 0"

subsection \<open>Data model\<close>

datatype LPCDECSTATE =
    LPCDECSTATE_INVALID
  | LPCDECSTATE_LFRAME_WAIT_ASSERTED
  | LPCDECSTATE_START
  | LPCDECSTATE_ADDR
  | LPCDECSTATE_DATA
  | LPCDECSTATE_TAR
  | LPCDECSTATE_SYNC
  | LPCDECSTATE_32BIT_HACK

text \<open>\<^verbatim>\<open>struct LPCDEC\<close>. The array \<^verbatim>\<open>aenmState[9]\<close> is a function of the index; only
  the indices below 9 exist in C, and every access is guarded by that bound.\<close>

record LPCDEC =
  u8BitLClk :: u8
  u8BitLFrame :: u8
  u8BitLad0 :: u8
  u8BitLad1 :: u8
  u8BitLad2 :: u8
  u8BitLad3 :: u8
  idxState :: u32
  aenmState :: "nat \<Rightarrow> LPCDECSTATE"
  uSeqNoCycle :: u64
  fClkLast :: u8
  bStartLast :: u8
  bTyp :: u8
  fWrite :: u8
  cAddrCycles :: u8
  cDataCycles :: u8
  iDataCycle :: u8
  cTarCycles :: u8
  u32Addr :: u32
  bData :: u8

definition aenmState_capacity :: nat where
  "aenmState_capacity = 9"

text \<open>The phases gone through since the last reset, \<^verbatim>\<open>aenmState[0..idxState]\<close>, and the
  current one, \<^verbatim>\<open>aenmState[idxState]\<close>.\<close>

definition phase_history :: "LPCDEC \<Rightarrow> LPCDECSTATE list" where
  "phase_history s = map (aenmState s) [0..<Suc (unat (idxState s))]"

definition current_phase :: "LPCDEC \<Rightarrow> LPCDECSTATE" where
  "current_phase s = aenmState s (unat (idxState s))"

text \<open>What the program writes to standard output. A line of \<^verbatim>\<open>lpcDecStateDump\<close> is kept
  as the values it prints: sequence number, type, direction, address, data, the chain of
  states (printed under \<^verbatim>\<open>g_fVerbose\<close> only) and the abort mark.\<close>

record cycle_line =
  cl_seq :: u64
  cl_typ :: u8
  cl_write :: bool
  cl_addr :: u32
  cl_data :: u8
  cl_chain :: "LPCDECSTATE list"
  cl_abort :: bool

datatype event =
    Decoded_Cycle cycle_line
  | Wait_What
  | Unknown_State LPCDECSTATE
  | Illegal_Cycle_Type u8

subsection \<open>C expressions that can fault\<close>

text \<open>\<^verbatim>\<open>x << n\<close> at type \<^verbatim>\<open>int\<close>: undefined for a count of 32 or more. For a smaller
  count the result is the shifted bit pattern, also where a 1 reaches the sign bit (as in
  \<^verbatim>\<open>bLad << 28\<close> for a nibble of 8 or more), which is what the compilers compute.\<close>

definition shl_int :: "u32 \<Rightarrow> nat \<Rightarrow> u32 option" where
  "shl_int x n = (if n < 32 then Some (push_bit n x) else None)"

text \<open>\<^verbatim>\<open>pLpcDec->aenmState[i]\<close> as an rvalue, for an index of type \<^verbatim>\<open>uint32_t\<close>.\<close>

definition aenmState_read :: "LPCDEC \<Rightarrow> u32 \<Rightarrow> LPCDECSTATE option" where
  "aenmState_read s i =
     (if unat i < aenmState_capacity then Some (aenmState s (unat i)) else None)"

subsection \<open>Reset, initialisation, pin extraction\<close>

definition lpcDecStateReset :: "LPCDEC \<Rightarrow> LPCDEC" where
  "lpcDecStateReset s =
     s\<lparr>idxState := 0, u32Addr := 0, bData := 0, iDataCycle := 0,
       aenmState := (aenmState s)(0 := LPCDECSTATE_LFRAME_WAIT_ASSERTED)\<rparr>"

text \<open>\<^verbatim>\<open>lpcDecStateInit\<close> runs on the uninitialised \<^verbatim>\<open>LPCDEC LpcDec\<close> of \<^verbatim>\<open>main\<close>:
  the fields it does not assign keep whatever the argument \<open>s\<close> holds.\<close>

definition lpcDecStateInit ::
  "LPCDEC \<Rightarrow> u8 \<Rightarrow> u8 \<Rightarrow> u8 \<Rightarrow> u8 \<Rightarrow> u8 \<Rightarrow> u8 \<Rightarrow> LPCDEC" where
  "lpcDecStateInit s u8BitClk u8BitLFrame' u8BitLad0' u8BitLad1' u8BitLad2' u8BitLad3' =
     lpcDecStateReset
       (s\<lparr>u8BitLClk := u8BitClk, u8BitLFrame := u8BitLFrame', u8BitLad0 := u8BitLad0',
          u8BitLad1 := u8BitLad1', u8BitLad2 := u8BitLad2', u8BitLad3 := u8BitLad3',
          fClkLast := 0\<rparr>)"

text \<open>\<^verbatim>\<open>(bSample & (1 << bit)) >> bit\<close>, computed at type \<^verbatim>\<open>int\<close>.\<close>

definition sample_bit :: "u8 \<Rightarrow> u8 \<Rightarrow> u32 option" where
  "sample_bit bSample b =
     do { m \<leftarrow> shl_int 1 (unat b);
          Some (drop_bit (unat b) (ucast bSample AND m)) }"

definition lpcDecStateLadExtractFromSample :: "LPCDEC \<Rightarrow> u8 \<Rightarrow> u8 option" where
  "lpcDecStateLadExtractFromSample s bSample =
     do { l0 \<leftarrow> sample_bit bSample (u8BitLad0 s);
          l1 \<leftarrow> sample_bit bSample (u8BitLad1 s);
          l2 \<leftarrow> sample_bit bSample (u8BitLad2 s);
          l3 \<leftarrow> sample_bit bSample (u8BitLad3 s);
          Some (ucast (l0 OR push_bit 1 l1 OR push_bit 2 l2 OR push_bit 3 l3)) }"

text \<open>\<^verbatim>\<open>!!(bSample & (1 << bit))\<close>\<close>

definition sample_flag :: "u8 \<Rightarrow> u8 \<Rightarrow> u8 option" where
  "sample_flag bSample b =
     do { m \<leftarrow> shl_int 1 (unat b);
          Some (if ucast bSample AND m \<noteq> 0 then 1 else 0) }"

subsection \<open>Output and the state chain\<close>

definition lpcDecStateDump :: "LPCDEC \<Rightarrow> u8 \<Rightarrow> event list" where
  "lpcDecStateDump s fAbort =
     (if bTyp s = LPC_DEC_CYC_TYPE_IO \<or> bTyp s = LPC_DEC_CYC_TYPE_MEM
         \<or> bTyp s = LPC_DEC_CYC_TYPE_DMA \<or> bTyp s = LPC_DEC_CYC_TYPE_RSVD
      then [] else [Wait_What])
     @ [Decoded_Cycle
          \<lparr>cl_seq = uSeqNoCycle s, cl_typ = bTyp s, cl_write = (fWrite s \<noteq> 0),
           cl_addr = u32Addr s, cl_data = bData s, cl_chain = phase_history s,
           cl_abort = (fAbort \<noteq> 0)\<rparr>]"

definition lpcDecStateSet :: "LPCDEC \<Rightarrow> LPCDECSTATE \<Rightarrow> LPCDEC option" where
  "lpcDecStateSet s enmState =
     (let i = idxState s + 1
      in if unat i < aenmState_capacity
         then Some (s\<lparr>idxState := i, aenmState := (aenmState s)(unat i := enmState)\<rparr>)
         else None)"

subsection \<open>Phase advancement\<close>

definition lpcDecStateSampleAdvance :: "LPCDEC \<Rightarrow> (LPCDEC \<times> event list) option" where
  "lpcDecStateSampleAdvance s =
     do { st \<leftarrow> aenmState_read s (idxState s);
          case st of
            LPCDECSTATE_LFRAME_WAIT_ASSERTED \<Rightarrow> Some (s, [])
          | LPCDECSTATE_ADDR \<Rightarrow>
              if fWrite s \<noteq> 0
              then do { s1 \<leftarrow> lpcDecStateSet s LPCDECSTATE_DATA;
                        Some (s1\<lparr>cDataCycles := 2\<rparr>, []) }
              else do { s1 \<leftarrow> lpcDecStateSet s LPCDECSTATE_TAR;
                        Some (s1\<lparr>cTarCycles := 2\<rparr>, []) }
          | LPCDECSTATE_DATA \<Rightarrow>
              do { s1 \<leftarrow> lpcDecStateSet s LPCDECSTATE_TAR;
                   Some (s1\<lparr>cTarCycles := 2\<rparr>, []) }
          | LPCDECSTATE_TAR \<Rightarrow>
              do { prev \<leftarrow> aenmState_read s (idxState s - 1);
                   if fWrite s \<noteq> 0
                   then if prev = LPCDECSTATE_DATA
                        then do { s1 \<leftarrow> lpcDecStateSet s LPCDECSTATE_SYNC; Some (s1, []) }
                        else Some (lpcDecStateReset s, lpcDecStateDump s 0)
                   else if prev = LPCDECSTATE_ADDR
                        then do { s1 \<leftarrow> lpcDecStateSet s LPCDECSTATE_SYNC; Some (s1, []) }
                        else Some (lpcDecStateReset s, lpcDecStateDump s 0) }
          | LPCDECSTATE_SYNC \<Rightarrow>
              if fWrite s \<noteq> 0
              then do { s1 \<leftarrow> lpcDecStateSet s LPCDECSTATE_TAR;
                        Some (s1\<lparr>cTarCycles := 2\<rparr>, []) }
              else do { s1 \<leftarrow> lpcDecStateSet s LPCDECSTATE_DATA;
                        Some (s1\<lparr>cDataCycles := 2\<rparr>, []) }
          | _ \<Rightarrow> Some (s, [Unknown_State st]) }"

subsection \<open>The phase decoders\<close>

definition lpcDecStateStartDecode :: "LPCDEC \<Rightarrow> u8 \<Rightarrow> (LPCDEC \<times> event list) option" where
  "lpcDecStateStartDecode s bLad =
     (if bStartLast s = LPC_DEC_START_TARGET_CYCLE
      then do { s1 \<leftarrow> lpcDecStateSet
                        (s\<lparr>bTyp := LPC_DEC_CYC_TYPE_GET bLad,
                           fWrite := (if LPC_DEC_CYC_DIR_IS_READ bLad then 0 else 1),
                           u32Addr := 0\<rparr>)
                        LPCDECSTATE_ADDR;
                if bTyp s1 = LPC_DEC_CYC_TYPE_IO then Some (s1\<lparr>cAddrCycles := 4\<rparr>, [])
                else if bTyp s1 = LPC_DEC_CYC_TYPE_MEM then Some (s1\<lparr>cAddrCycles := 8\<rparr>, [])
                else Some (lpcDecStateReset s1, [Illegal_Cycle_Type (bTyp s1)]) }
      else if bStartLast s = LPC_DEC_START_ABORT then Some (lpcDecStateReset s, [])
      else Some (s, []))"

definition lpcDecStateAddrDecode :: "LPCDEC \<Rightarrow> u8 \<Rightarrow> (LPCDEC \<times> event list) option" where
  "lpcDecStateAddrDecode s bLad =
     (let s1 = s\<lparr>cAddrCycles := cAddrCycles s - 1\<rparr>
      in do { v \<leftarrow> shl_int (ucast bLad) (unat (cAddrCycles s1) * 4);
              let s2 = s1\<lparr>u32Addr := u32Addr s1 OR v\<rparr>;
              if cAddrCycles s2 = 0 then lpcDecStateSampleAdvance s2 else Some (s2, []) })"

definition lpcDecStateDataDecode :: "LPCDEC \<Rightarrow> u8 \<Rightarrow> (LPCDEC \<times> event list) option" where
  "lpcDecStateDataDecode s bLad =
     do { v \<leftarrow> shl_int (ucast bLad) (unat (iDataCycle s) * 4);
          let s1 = s\<lparr>bData := ucast (ucast (bData s) OR v)\<rparr>;
          let s2 = s1\<lparr>iDataCycle := iDataCycle s1 + 1\<rparr>;
          if iDataCycle s2 = cDataCycles s2 then lpcDecStateSampleAdvance s2
          else Some (s2, []) }"

definition lpcDecStateTarDecode :: "LPCDEC \<Rightarrow> u8 \<Rightarrow> (LPCDEC \<times> event list) option" where
  "lpcDecStateTarDecode s bLad =
     (let s1 = s\<lparr>cTarCycles := cTarCycles s - 1\<rparr>
      in if cTarCycles s1 = 0 then lpcDecStateSampleAdvance s1 else Some (s1, []))"

definition lpcDecStateSyncDecode :: "LPCDEC \<Rightarrow> u8 \<Rightarrow> (LPCDEC \<times> event list) option" where
  "lpcDecStateSyncDecode s bLad =
     (if bLad = 0 then lpcDecStateSampleAdvance s else Some (s, []))"

subsection \<open>One sample, and the loop of main\<close>

text \<open>The part of \<^verbatim>\<open>lpcDecStateSampleProcess\<close> that runs on a falling edge.\<close>

definition falling_edge :: "LPCDEC \<Rightarrow> u64 \<Rightarrow> u8 \<Rightarrow> (LPCDEC \<times> event list) option" where
  "falling_edge s uSeqNo bSample =
     do { fLFrame \<leftarrow> sample_flag bSample (u8BitLFrame s);
          bLad \<leftarrow> lpcDecStateLadExtractFromSample s bSample;
          st \<leftarrow> aenmState_read s (idxState s);
          if fLFrame = 0
          then do { let out = (if st \<noteq> LPCDECSTATE_LFRAME_WAIT_ASSERTED \<and> st \<noteq> LPCDECSTATE_START
                               then lpcDecStateDump s 1 else []);
                    s1 \<leftarrow> lpcDecStateSet
                            (lpcDecStateReset (s\<lparr>bStartLast := bLad, uSeqNoCycle := uSeqNo\<rparr>))
                            LPCDECSTATE_START;
                    Some (s1, out) }
          else case st of
                 LPCDECSTATE_LFRAME_WAIT_ASSERTED \<Rightarrow> Some (s, [])
               | LPCDECSTATE_START \<Rightarrow> lpcDecStateStartDecode s bLad
               | LPCDECSTATE_ADDR \<Rightarrow> lpcDecStateAddrDecode s bLad
               | LPCDECSTATE_DATA \<Rightarrow> lpcDecStateDataDecode s bLad
               | LPCDECSTATE_TAR \<Rightarrow> lpcDecStateTarDecode s bLad
               | LPCDECSTATE_SYNC \<Rightarrow> lpcDecStateSyncDecode s bLad
               | _ \<Rightarrow> Some (s, [Unknown_State st]) }"

text \<open>The result is the status code, the decoder afterwards and the output.\<close>

definition lpcDecStateSampleProcess ::
  "LPCDEC \<Rightarrow> u64 \<Rightarrow> u8 \<Rightarrow> (int \<times> LPCDEC \<times> event list) option" where
  "lpcDecStateSampleProcess s uSeqNo bSample =
     do { fClk \<leftarrow> sample_flag bSample (u8BitLClk s);
          if fClk = fClkLast s then Some (0, s, [])
          else do { (s1, out) \<leftarrow> (if fClkLast s \<noteq> 0 \<and> fClk = 0
                                   then falling_edge s uSeqNo bSample
                                   else Some (s, []));
                    Some (0, s1\<lparr>fClkLast := fClk\<rparr>, out) } }"

text \<open>The loop of \<^verbatim>\<open>main\<close> over the samples the reader delivers: it stops at the end of
  the stream or at a status code other than 0.\<close>

fun lpcDecFeed :: "LPCDEC \<Rightarrow> (u64 \<times> u8) list \<Rightarrow> (LPCDEC \<times> event list) option" where
  "lpcDecFeed s [] = Some (s, [])"
| "lpcDecFeed s ((uSeqNo, bVal) # rest) =
     do { (rc, s1, out1) \<leftarrow> lpcDecStateSampleProcess s uSeqNo bVal;
          if rc \<noteq> 0 then Some (s1, out1)
          else do { (s2, out2) \<leftarrow> lpcDecFeed s1 rest;
                    Some (s2, out1 @ out2) } }"

subsection \<open>Vocabulary of the statements\<close>

text \<open>The phase before the current one, \<^verbatim>\<open>aenmState[idxState - 1]\<close>.\<close>

definition previous_phase :: "LPCDEC \<Rightarrow> LPCDECSTATE" where
  "previous_phase s = aenmState s (unat (idxState s - 1))"

text \<open>A sample that is a falling clock edge for the decoder \<open>s\<close>, with LFRAME# high
  (deasserted) or low (asserted), and with \<open>bLad\<close> on LAD[3:0].\<close>

definition frame_high_edge :: "LPCDEC \<Rightarrow> u8 \<Rightarrow> u8 \<Rightarrow> bool" where
  "frame_high_edge s bSample bLad \<longleftrightarrow>
     fClkLast s \<noteq> 0 \<and> sample_flag bSample (u8BitLClk s) = Some 0
     \<and> sample_flag bSample (u8BitLFrame s) = Some 1
     \<and> lpcDecStateLadExtractFromSample s bSample = Some bLad"

definition frame_low_edge :: "LPCDEC \<Rightarrow> u8 \<Rightarrow> u8 \<Rightarrow> bool" where
  "frame_low_edge s bSample bLad \<longleftrightarrow>
     fClkLast s \<noteq> 0 \<and> sample_flag bSample (u8BitLClk s) = Some 0
     \<and> sample_flag bSample (u8BitLFrame s) = Some 0
     \<and> lpcDecStateLadExtractFromSample s bSample = Some bLad"

text \<open>What \<^verbatim>\<open>lpcDecStateSampleProcess\<close> returns on a falling edge, given the result of
  the branch taken: the clock level is stored and the status is 0.\<close>

definition sample_done ::
  "(LPCDEC \<times> event list) option \<Rightarrow> (int \<times> LPCDEC \<times> event list) option" where
  "sample_done r = map_option (\<lambda>(s', out). (0, s'\<lparr>fClkLast := 0\<rparr>, out)) r"

text \<open>The six bit numbers lie inside the sample byte.\<close>

definition pins_in_byte :: "LPCDEC \<Rightarrow> bool" where
  "pins_in_byte s \<longleftrightarrow>
     u8BitLClk s < 8 \<and> u8BitLFrame s < 8 \<and> u8BitLad0 s < 8 \<and> u8BitLad1 s < 8
     \<and> u8BitLad2 s < 8 \<and> u8BitLad3 s < 8"

subsection \<open>The invariant of the decoder\<close>

text \<open>The two chains of states a cycle can go through, for a write and for a read.\<close>

definition cycle_phases :: "bool \<Rightarrow> LPCDECSTATE list" where
  "cycle_phases w =
     (if w
      then [LPCDECSTATE_LFRAME_WAIT_ASSERTED, LPCDECSTATE_START, LPCDECSTATE_ADDR,
            LPCDECSTATE_DATA, LPCDECSTATE_TAR, LPCDECSTATE_SYNC, LPCDECSTATE_TAR]
      else [LPCDECSTATE_LFRAME_WAIT_ASSERTED, LPCDECSTATE_START, LPCDECSTATE_ADDR,
            LPCDECSTATE_TAR, LPCDECSTATE_SYNC, LPCDECSTATE_DATA, LPCDECSTATE_TAR])"

text \<open>The history is a prefix of the chain of the cycle's direction, the counter of the
  current phase is in its range, and nothing has been put into the data byte before the
  data phase.\<close>

definition decoder_inv :: "LPCDEC \<Rightarrow> bool" where
  "decoder_inv s \<longleftrightarrow>
     unat (idxState s) \<le> 6
     \<and> phase_history s = take (Suc (unat (idxState s))) (cycle_phases (fWrite s \<noteq> 0))
     \<and> (current_phase s = LPCDECSTATE_ADDR \<longrightarrow> 0 < cAddrCycles s \<and> cAddrCycles s \<le> 8)
     \<and> (current_phase s = LPCDECSTATE_DATA \<longrightarrow>
          cDataCycles s = 2 \<and> iDataCycle s < 2 \<and> (iDataCycle s = 0 \<longrightarrow> bData s = 0))
     \<and> (current_phase s = LPCDECSTATE_TAR \<longrightarrow> cTarCycles s = 1 \<or> cTarCycles s = 2)
     \<and> (LPCDECSTATE_DATA \<notin> set (phase_history s) \<longrightarrow> iDataCycle s = 0 \<and> bData s = 0)
     \<and> (2 \<le> unat (idxState s) \<longrightarrow> bTyp s = LPC_DEC_CYC_TYPE_IO \<or> bTyp s = LPC_DEC_CYC_TYPE_MEM)"

subsection \<open>Example captures\<close>

text \<open>A decoder structure before \<^verbatim>\<open>lpcDecStateInit\<close>, holding arbitrary values, and the
  decoder as \<^verbatim>\<open>main\<close> initialises it: LCLK on bit 0, LFRAME# on bit 1, LAD[0..3] on
  bits 5, 4, 3, 2.\<close>

definition uninitialised :: LPCDEC where
  "uninitialised =
     \<lparr>u8BitLClk = 0xaa, u8BitLFrame = 0xaa, u8BitLad0 = 0xaa, u8BitLad1 = 0xaa,
      u8BitLad2 = 0xaa, u8BitLad3 = 0xaa, idxState = 0xaaaaaaaa,
      aenmState = (\<lambda>_. LPCDECSTATE_32BIT_HACK), uSeqNoCycle = 0xaaaa, fClkLast = 0xaa,
      bStartLast = 0xaa, bTyp = 0xaa, fWrite = 0xaa, cAddrCycles = 0xaa, cDataCycles = 0xaa,
      iDataCycle = 0xaa, cTarCycles = 0xaa, u32Addr = 0xaaaaaaaa, bData = 0xaa\<rparr>"

definition main_init :: LPCDEC where
  "main_init = lpcDecStateInit uninitialised 0 1 5 4 3 2"

text \<open>The sample byte with the given levels on that wiring, and one clock period (a high
  and a low sample) carrying a nibble.\<close>

definition wire :: "bool \<Rightarrow> bool \<Rightarrow> u8 \<Rightarrow> u8" where
  "wire clk frame lad =
     (if clk then 1 else 0) OR (if frame then 2 else 0)
     OR (if bit lad 0 then 32 else 0) OR (if bit lad 1 then 16 else 0)
     OR (if bit lad 2 then 8 else 0) OR (if bit lad 3 then 4 else 0)"

definition clock_period :: "u64 \<Rightarrow> bool \<Rightarrow> u8 \<Rightarrow> (u64 \<times> u8) list" where
  "clock_period q frame lad = [(q, wire True frame lad), (q + 1, wire False frame lad)]"

text \<open>A memory write of 0xAB to 0x12340000: start nibble 0, type and direction nibble 6,
  eight address nibbles, two data nibbles, turn-around, one ready SYNC, turn-around.\<close>

definition mem_write_capture :: "(u64 \<times> u8) list" where
  "mem_write_capture =
     clock_period 0 False 0 @ clock_period 2 True 6
     @ clock_period 4 True 1 @ clock_period 6 True 2 @ clock_period 8 True 3
     @ clock_period 10 True 4 @ clock_period 12 True 0 @ clock_period 14 True 0
     @ clock_period 16 True 0 @ clock_period 18 True 0
     @ clock_period 20 True 0xb @ clock_period 22 True 0xa
     @ clock_period 24 True 0xf @ clock_period 26 True 0xf
     @ clock_period 28 True 0
     @ clock_period 30 True 0xf @ clock_period 32 True 0xf"

text \<open>An I/O read of 0x42 from 0x0064.\<close>

definition io_read_capture :: "(u64 \<times> u8) list" where
  "io_read_capture =
     clock_period 0 False 0 @ clock_period 2 True 0
     @ clock_period 4 True 0 @ clock_period 6 True 0 @ clock_period 8 True 6
     @ clock_period 10 True 4
     @ clock_period 12 True 0xf @ clock_period 14 True 0xf
     @ clock_period 16 True 0
     @ clock_period 18 True 2 @ clock_period 20 True 4
     @ clock_period 22 True 0xf @ clock_period 24 True 0xf"

text \<open>A decoder whose current state is none of the six the switches know.\<close>

definition corrupted :: LPCDEC where
  "corrupted = main_init\<lparr>aenmState := (\<lambda>_. LPCDECSTATE_INVALID), fClkLast := 1\<rparr>"

text \<open>The decoder after the first two address nibbles of the memory write, at the high
  clock level before the third.\<close>

definition mid_address :: LPCDEC where
  "mid_address =
     main_init\<lparr>idxState := 2,
               aenmState := (aenmState main_init)(1 := LPCDECSTATE_START, 2 := LPCDECSTATE_ADDR),
               uSeqNoCycle := 1, fClkLast := 1, bStartLast := 0, bTyp := 1, fWrite := 1,
               cAddrCycles := 6, u32Addr := 0x12000000\<rparr>"

text \<open>The decoder of the memory write when LFRAME# has just been seen asserted, at the start
  of the data phase, and at the start of the last turn-around, each at the high clock level
  before the next falling edge.\<close>

definition start_seen :: LPCDEC where
  "start_seen =
     main_init\<lparr>idxState := 1,
               aenmState := (aenmState main_init)(1 := LPCDECSTATE_START),
               uSeqNoCycle := 1, fClkLast := 1, bStartLast := 0\<rparr>"

definition data_entry :: LPCDEC where
  "data_entry =
     main_init\<lparr>idxState := 3,
               aenmState := (aenmState main_init)
                 (1 := LPCDECSTATE_START, 2 := LPCDECSTATE_ADDR, 3 := LPCDECSTATE_DATA),
               uSeqNoCycle := 1, fClkLast := 1, bStartLast := 0, bTyp := 1, fWrite := 1,
               cAddrCycles := 0, cDataCycles := 2, u32Addr := 0x12340000\<rparr>"

definition last_turnaround :: LPCDEC where
  "last_turnaround =
     main_init\<lparr>idxState := 6,
               aenmState := (aenmState main_init)
                 (1 := LPCDECSTATE_START, 2 := LPCDECSTATE_ADDR, 3 := LPCDECSTATE_DATA,
                  4 := LPCDECSTATE_TAR, 5 := LPCDECSTATE_SYNC, 6 := LPCDECSTATE_TAR),
               uSeqNoCycle := 1, fClkLast := 1, bStartLast := 0, bTyp := 1, fWrite := 1,
               cAddrCycles := 0, cDataCycles := 2, iDataCycle := 2, cTarCycles := 2,
               u32Addr := 0x12340000, bData := 0xab\<rparr>"

text \<open>The decoder of the memory write before its last address nibble.\<close>

definition last_address :: LPCDEC where
  "last_address =
     main_init\<lparr>idxState := 2,
               aenmState := (aenmState main_init)(1 := LPCDECSTATE_START, 2 := LPCDECSTATE_ADDR),
               uSeqNoCycle := 1, fClkLast := 1, bStartLast := 0, bTyp := 1, fWrite := 1,
               cAddrCycles := 1, u32Addr := 0x12340000\<rparr>"

section \<open>Basic facts\<close>

lemma unat_idx_Suc: "unat (i::u32) < 8 \<Longrightarrow> unat (i + 1) = Suc (unat i)"
  by (simp add: unat_word_ariths)

lemma lpcDecStateSet_Some:
  "unat (idxState s) < 8 \<Longrightarrow>
   lpcDecStateSet s p =
     Some (s\<lparr>idxState := idxState s + 1,
             aenmState := (aenmState s)(Suc (unat (idxState s)) := p)\<rparr>)"
  by (simp add: lpcDecStateSet_def aenmState_capacity_def unat_idx_Suc Let_def)

lemma phase_history_push:
  "unat (idxState s) < 8 \<Longrightarrow>
   phase_history (s\<lparr>idxState := idxState s + 1,
                    aenmState := (aenmState s)(Suc (unat (idxState s)) := p)\<rparr>)
     = phase_history s @ [p]"
  by (simp add: phase_history_def unat_idx_Suc)

lemma current_phase_push:
  "unat (idxState s) < 8 \<Longrightarrow>
   current_phase (s\<lparr>idxState := idxState s + 1,
                    aenmState := (aenmState s)(Suc (unat (idxState s)) := p)\<rparr>) = p"
  by (simp add: current_phase_def unat_idx_Suc)

lemma phase_history_reset:
  "phase_history (lpcDecStateReset s) = [LPCDECSTATE_LFRAME_WAIT_ASSERTED]"
  by (simp add: phase_history_def lpcDecStateReset_def)

lemma current_phase_reset:
  "current_phase (lpcDecStateReset s) = LPCDECSTATE_LFRAME_WAIT_ASSERTED"
  by (simp add: current_phase_def lpcDecStateReset_def)

lemma aenmState_read_cur:
  "unat (idxState s) < 9 \<Longrightarrow> aenmState_read s (idxState s) = Some (current_phase s)"
  by (simp add: aenmState_read_def current_phase_def aenmState_capacity_def)

lemma upt_small:
  "[0..<2] = [0, 1]" "[0..<3] = [0, 1, 2]" "[0..<4] = [0, 1, 2, 3]" "[0..<5] = [0, 1, 2, 3, 4]"
  "[0..<6] = [0, 1, 2, 3, 4, 5]" "[0..<7] = [0, 1, 2, 3, 4, 5, 6]"
  by (simp_all add: upt_rec)

lemma phase_history_0: "idxState s = 0 \<Longrightarrow> phase_history s = [aenmState s 0]"
  by (simp add: phase_history_def)

lemma phase_history_1: "idxState s = 1 \<Longrightarrow> phase_history s = [aenmState s 0, aenmState s 1]"
  by (simp add: phase_history_def)

lemma phase_history_2: "idxState s = 2 \<Longrightarrow> phase_history s = map (aenmState s) [0, 1, 2]"
  by (simp add: phase_history_def upt_small)

lemma phase_history_3: "idxState s = 3 \<Longrightarrow> phase_history s = map (aenmState s) [0, 1, 2, 3]"
  by (simp add: phase_history_def upt_small)

lemma phase_history_4:
  "idxState s = 4 \<Longrightarrow> phase_history s = map (aenmState s) [0, 1, 2, 3, 4]"
  by (simp add: phase_history_def upt_small)

lemma phase_history_5:
  "idxState s = 5 \<Longrightarrow> phase_history s = map (aenmState s) [0, 1, 2, 3, 4, 5]"
  by (simp add: phase_history_def upt_small)

lemma phase_history_6:
  "idxState s = 6 \<Longrightarrow> phase_history s = map (aenmState s) [0, 1, 2, 3, 4, 5, 6]"
  by (simp add: phase_history_def upt_small)

lemmas phase_history_n = phase_history_0 phase_history_1 phase_history_2 phase_history_3
  phase_history_4 phase_history_5 phase_history_6

lemma idx_cases:
  "unat (i::u32) \<le> 6 \<Longrightarrow> i = 0 \<or> i = 1 \<or> i = 2 \<or> i = 3 \<or> i = 4 \<or> i = 5 \<or> i = 6"
  by unat_arith

lemma u8_lt_2: "(i::u8) < 2 \<Longrightarrow> i = 0 \<or> i = 1"
  by unat_arith

lemma addr_count_dec:
  "0 < (c::u8) \<Longrightarrow> c \<le> 8 \<Longrightarrow>
   unat (c - 1) * 4 < 32 \<and> c - 1 \<le> 8 \<and> (c - 1 \<noteq> 0 \<longrightarrow> 0 < c - 1)"
  by unat_arith

lemma pin_shift: "(b::u8) < 8 \<Longrightarrow> unat b < 32"
  by unat_arith

section \<open>The invariant holds in every state the decoder reaches\<close>

lemmas ty_defs = LPC_DEC_CYC_TYPE_IO_def LPC_DEC_CYC_TYPE_MEM_def LPC_DEC_CYC_TYPE_DMA_def
  LPC_DEC_CYC_TYPE_RSVD_def

lemma decoder_inv_at_0:
  "idxState s = 0 \<Longrightarrow>
   decoder_inv s \<longleftrightarrow>
     aenmState s 0 = LPCDECSTATE_LFRAME_WAIT_ASSERTED \<and> iDataCycle s = 0 \<and> bData s = 0"
  by (auto simp: decoder_inv_def phase_history_n cycle_phases_def current_phase_def)

lemma decoder_inv_at_1:
  "idxState s = 1 \<Longrightarrow>
   decoder_inv s \<longleftrightarrow>
     aenmState s 0 = LPCDECSTATE_LFRAME_WAIT_ASSERTED \<and> aenmState s 1 = LPCDECSTATE_START
     \<and> iDataCycle s = 0 \<and> bData s = 0"
  by (auto simp: decoder_inv_def phase_history_n cycle_phases_def current_phase_def)

lemma decoder_inv_at_2:
  "idxState s = 2 \<Longrightarrow>
   decoder_inv s \<longleftrightarrow>
     aenmState s 0 = LPCDECSTATE_LFRAME_WAIT_ASSERTED \<and> aenmState s 1 = LPCDECSTATE_START
     \<and> aenmState s 2 = LPCDECSTATE_ADDR
     \<and> 0 < cAddrCycles s \<and> cAddrCycles s \<le> 8 \<and> iDataCycle s = 0 \<and> bData s = 0
     \<and> (bTyp s = LPC_DEC_CYC_TYPE_IO \<or> bTyp s = LPC_DEC_CYC_TYPE_MEM)"
  by (auto simp: decoder_inv_def phase_history_n cycle_phases_def current_phase_def)

lemma decoder_inv_at_3:
  "idxState s = 3 \<Longrightarrow>
   decoder_inv s \<longleftrightarrow>
     aenmState s 0 = LPCDECSTATE_LFRAME_WAIT_ASSERTED \<and> aenmState s 1 = LPCDECSTATE_START
     \<and> aenmState s 2 = LPCDECSTATE_ADDR
     \<and> (bTyp s = LPC_DEC_CYC_TYPE_IO \<or> bTyp s = LPC_DEC_CYC_TYPE_MEM)
     \<and> (if fWrite s \<noteq> 0
         then aenmState s 3 = LPCDECSTATE_DATA \<and> cDataCycles s = 2 \<and> iDataCycle s < 2
              \<and> (iDataCycle s = 0 \<longrightarrow> bData s = 0)
         else aenmState s 3 = LPCDECSTATE_TAR \<and> (cTarCycles s = 1 \<or> cTarCycles s = 2)
              \<and> iDataCycle s = 0 \<and> bData s = 0)"
  by (auto simp: decoder_inv_def phase_history_n cycle_phases_def current_phase_def)

lemma decoder_inv_at_4:
  "idxState s = 4 \<Longrightarrow>
   decoder_inv s \<longleftrightarrow>
     aenmState s 0 = LPCDECSTATE_LFRAME_WAIT_ASSERTED \<and> aenmState s 1 = LPCDECSTATE_START
     \<and> aenmState s 2 = LPCDECSTATE_ADDR
     \<and> (bTyp s = LPC_DEC_CYC_TYPE_IO \<or> bTyp s = LPC_DEC_CYC_TYPE_MEM)
     \<and> (if fWrite s \<noteq> 0
         then aenmState s 3 = LPCDECSTATE_DATA \<and> aenmState s 4 = LPCDECSTATE_TAR
              \<and> (cTarCycles s = 1 \<or> cTarCycles s = 2)
         else aenmState s 3 = LPCDECSTATE_TAR \<and> aenmState s 4 = LPCDECSTATE_SYNC
              \<and> iDataCycle s = 0 \<and> bData s = 0)"
  by (auto simp: decoder_inv_def phase_history_n cycle_phases_def current_phase_def)

lemma decoder_inv_at_5:
  "idxState s = 5 \<Longrightarrow>
   decoder_inv s \<longleftrightarrow>
     aenmState s 0 = LPCDECSTATE_LFRAME_WAIT_ASSERTED \<and> aenmState s 1 = LPCDECSTATE_START
     \<and> aenmState s 2 = LPCDECSTATE_ADDR
     \<and> (bTyp s = LPC_DEC_CYC_TYPE_IO \<or> bTyp s = LPC_DEC_CYC_TYPE_MEM)
     \<and> (if fWrite s \<noteq> 0
         then aenmState s 3 = LPCDECSTATE_DATA \<and> aenmState s 4 = LPCDECSTATE_TAR
              \<and> aenmState s 5 = LPCDECSTATE_SYNC
         else aenmState s 3 = LPCDECSTATE_TAR \<and> aenmState s 4 = LPCDECSTATE_SYNC
              \<and> aenmState s 5 = LPCDECSTATE_DATA
              \<and> cDataCycles s = 2 \<and> iDataCycle s < 2 \<and> (iDataCycle s = 0 \<longrightarrow> bData s = 0))"
  by (auto simp: decoder_inv_def phase_history_n cycle_phases_def current_phase_def)

lemma decoder_inv_at_6:
  "idxState s = 6 \<Longrightarrow>
   decoder_inv s \<longleftrightarrow>
     aenmState s 0 = LPCDECSTATE_LFRAME_WAIT_ASSERTED \<and> aenmState s 1 = LPCDECSTATE_START
     \<and> aenmState s 2 = LPCDECSTATE_ADDR
     \<and> (bTyp s = LPC_DEC_CYC_TYPE_IO \<or> bTyp s = LPC_DEC_CYC_TYPE_MEM)
     \<and> (cTarCycles s = 1 \<or> cTarCycles s = 2)
     \<and> aenmState s 6 = LPCDECSTATE_TAR
     \<and> (if fWrite s \<noteq> 0
         then aenmState s 3 = LPCDECSTATE_DATA \<and> aenmState s 4 = LPCDECSTATE_TAR
              \<and> aenmState s 5 = LPCDECSTATE_SYNC
         else aenmState s 3 = LPCDECSTATE_TAR \<and> aenmState s 4 = LPCDECSTATE_SYNC
              \<and> aenmState s 5 = LPCDECSTATE_DATA)"
  by (auto simp: decoder_inv_def phase_history_n cycle_phases_def current_phase_def)

lemmas decoder_inv_at = decoder_inv_at_0 decoder_inv_at_1 decoder_inv_at_2 decoder_inv_at_3
  decoder_inv_at_4 decoder_inv_at_5 decoder_inv_at_6

lemma decoder_inv_idx: "decoder_inv s \<Longrightarrow> unat (idxState s) \<le> 6"
  by (simp add: decoder_inv_def)

lemma inv_phase_idx:
  assumes "decoder_inv s"
  shows "current_phase s = LPCDECSTATE_LFRAME_WAIT_ASSERTED \<Longrightarrow> idxState s = 0"
    and "current_phase s = LPCDECSTATE_START \<Longrightarrow> idxState s = 1"
    and "current_phase s = LPCDECSTATE_ADDR \<Longrightarrow> idxState s = 2"
    and "current_phase s = LPCDECSTATE_DATA \<Longrightarrow>
           (if fWrite s \<noteq> 0 then idxState s = 3 else idxState s = 5)"
    and "current_phase s = LPCDECSTATE_SYNC \<Longrightarrow>
           (if fWrite s \<noteq> 0 then idxState s = 5 else idxState s = 4)"
    and "current_phase s = LPCDECSTATE_TAR \<Longrightarrow>
           (if fWrite s \<noteq> 0 then idxState s = 4 \<or> idxState s = 6
            else idxState s = 3 \<or> idxState s = 6)"
    and "current_phase s \<noteq> LPCDECSTATE_INVALID"
    and "current_phase s \<noteq> LPCDECSTATE_32BIT_HACK"
  using assms idx_cases [OF decoder_inv_idx [OF assms]]
  by (auto simp: decoder_inv_at current_phase_def split: if_splits)

lemma StartDecode_inv:
  assumes "decoder_inv s" and "current_phase s = LPCDECSTATE_START"
  shows "\<exists>s' out. lpcDecStateStartDecode s lad = Some (s', out) \<and> decoder_inv s'"
proof -
  have i: "idxState s = 1" using assms by (rule inv_phase_idx)
  with assms(1) show ?thesis
    by (simp add: decoder_inv_at lpcDecStateStartDecode_def lpcDecStateSet_def
        aenmState_capacity_def lpcDecStateReset_def Let_def)
qed

lemma AddrDecode_inv:
  assumes "decoder_inv s" and "current_phase s = LPCDECSTATE_ADDR"
  shows "\<exists>s' out. lpcDecStateAddrDecode s lad = Some (s', out) \<and> decoder_inv s'"
proof -
  have i: "idxState s = 2" using assms by (rule inv_phase_idx)
  with assms(1) have c: "0 < cAddrCycles s" "cAddrCycles s \<le> 8"
    by (simp_all add: decoder_inv_at)
  note d = addr_count_dec [OF c]
  from i assms(1) d show ?thesis
    by (simp add: decoder_inv_at lpcDecStateAddrDecode_def lpcDecStateSet_def shl_int_def
        aenmState_capacity_def lpcDecStateSampleAdvance_def aenmState_read_def Let_def)
qed

lemma DataDecode_inv:
  assumes "decoder_inv s" and "current_phase s = LPCDECSTATE_DATA"
  shows "\<exists>s' out. lpcDecStateDataDecode s lad = Some (s', out) \<and> decoder_inv s'"
proof (cases "fWrite s \<noteq> 0")
  case True
  with inv_phase_idx(4) [OF assms] have i: "idxState s = 3" by simp
  with assms(1) True have "iDataCycle s = 0 \<or> iDataCycle s = 1"
    by (simp add: decoder_inv_at u8_lt_2)
  with i True assms(1) show ?thesis
    by (auto simp: decoder_inv_at lpcDecStateDataDecode_def lpcDecStateSet_def shl_int_def
        aenmState_capacity_def lpcDecStateSampleAdvance_def aenmState_read_def Let_def)
next
  case False
  with inv_phase_idx(4) [OF assms] have i: "idxState s = 5" by simp
  with assms(1) False have "iDataCycle s = 0 \<or> iDataCycle s = 1"
    by (simp add: decoder_inv_at u8_lt_2)
  with i False assms(1) show ?thesis
    by (auto simp: decoder_inv_at lpcDecStateDataDecode_def lpcDecStateSet_def shl_int_def
        aenmState_capacity_def lpcDecStateSampleAdvance_def aenmState_read_def Let_def)
qed

lemma TarDecode_inv:
  assumes "decoder_inv s" and "current_phase s = LPCDECSTATE_TAR"
  shows "\<exists>s' out. lpcDecStateTarDecode s lad = Some (s', out) \<and> decoder_inv s'"
proof -
  from inv_phase_idx(6) [OF assms] have "idxState s = 3 \<or> idxState s = 4 \<or> idxState s = 6"
    by (auto split: if_splits)
  then show ?thesis
  proof (elim disjE)
    assume i: "idxState s = 3"
    with assms(1) show ?thesis
      by (auto simp: decoder_inv_at lpcDecStateTarDecode_def lpcDecStateSet_def
          lpcDecStateReset_def aenmState_capacity_def lpcDecStateSampleAdvance_def
          aenmState_read_def Let_def split: if_splits)
  next
    assume i: "idxState s = 4"
    with assms(1) show ?thesis
      by (auto simp: decoder_inv_at lpcDecStateTarDecode_def lpcDecStateSet_def
          lpcDecStateReset_def aenmState_capacity_def lpcDecStateSampleAdvance_def
          aenmState_read_def Let_def split: if_splits)
  next
    assume i: "idxState s = 6"
    with assms(1) show ?thesis
      by (auto simp: decoder_inv_at lpcDecStateTarDecode_def lpcDecStateSet_def
          lpcDecStateReset_def aenmState_capacity_def lpcDecStateSampleAdvance_def
          aenmState_read_def Let_def split: if_splits)
  qed
qed

lemma SyncDecode_inv:
  assumes "decoder_inv s" and "current_phase s = LPCDECSTATE_SYNC"
  shows "\<exists>s' out. lpcDecStateSyncDecode s lad = Some (s', out) \<and> decoder_inv s'"
proof -
  from inv_phase_idx(5) [OF assms] have "idxState s = 4 \<or> idxState s = 5"
    by (auto split: if_splits)
  then show ?thesis
  proof (elim disjE)
    assume i: "idxState s = 4"
    with assms(1) show ?thesis
      by (auto simp: decoder_inv_at lpcDecStateSyncDecode_def lpcDecStateSet_def
          aenmState_capacity_def lpcDecStateSampleAdvance_def
          aenmState_read_def Let_def split: if_splits)
  next
    assume i: "idxState s = 5"
    with assms(1) show ?thesis
      by (auto simp: decoder_inv_at lpcDecStateSyncDecode_def lpcDecStateSet_def
          aenmState_capacity_def lpcDecStateSampleAdvance_def
          aenmState_read_def Let_def split: if_splits)
  qed
qed

lemma sample_flag_total:
  "b < 8 \<Longrightarrow> sample_flag x b = Some 0 \<or> sample_flag x b = Some 1"
  by (simp add: sample_flag_def shl_int_def pin_shift)

lemma sample_bit_total: "b < 8 \<Longrightarrow> \<exists>v. sample_bit x b = Some v"
  by (simp add: sample_bit_def shl_int_def pin_shift)

lemma LadExtract_total:
  assumes "pins_in_byte s"
  shows "\<exists>lad. lpcDecStateLadExtractFromSample s x = Some lad"
proof -
  from assms obtain l0 l1 l2 l3 where
    "sample_bit x (u8BitLad0 s) = Some l0" "sample_bit x (u8BitLad1 s) = Some l1"
    "sample_bit x (u8BitLad2 s) = Some l2" "sample_bit x (u8BitLad3 s) = Some l3"
    unfolding pins_in_byte_def using sample_bit_total by metis
  then show ?thesis by (simp add: lpcDecStateLadExtractFromSample_def)
qed

lemma aenmState_read_inv:
  "decoder_inv s \<Longrightarrow> aenmState_read s (idxState s) = Some (current_phase s)"
  using decoder_inv_idx [of s] by (simp add: aenmState_read_cur)

lemma frame_assert_inv:
  "\<exists>s'. lpcDecStateSet (lpcDecStateReset (s\<lparr>bStartLast := l, uSeqNoCycle := q\<rparr>))
            LPCDECSTATE_START = Some s' \<and> decoder_inv s'"
  by (simp add: lpcDecStateSet_def lpcDecStateReset_def aenmState_capacity_def decoder_inv_at)

lemma falling_edge_inv:
  assumes inv: "decoder_inv s" and pins: "pins_in_byte s"
  shows "\<exists>s' out. falling_edge s q x = Some (s', out) \<and> decoder_inv s'"
proof -
  from pins obtain f where f: "sample_flag x (u8BitLFrame s) = Some f"
    using sample_flag_total [of "u8BitLFrame s" x] by (auto simp: pins_in_byte_def)
  from pins obtain lad where lad: "lpcDecStateLadExtractFromSample s x = Some lad"
    using LadExtract_total by blast
  note rd = aenmState_read_inv [OF inv]
  show ?thesis
  proof (cases "f = 0")
    case True
    with f lad rd frame_assert_inv [where s = s and l = lad and q = q] show ?thesis
      by (auto simp: falling_edge_def)
  next
    case False
    show ?thesis
    proof (cases "current_phase s")
      case LPCDECSTATE_INVALID
      with inv_phase_idx(7) [OF inv] show ?thesis by simp
    next
      case LPCDECSTATE_LFRAME_WAIT_ASSERTED
      with f lad rd False inv show ?thesis by (simp add: falling_edge_def)
    next
      case LPCDECSTATE_START
      with f lad rd False StartDecode_inv [OF inv, of lad] show ?thesis
        by (simp add: falling_edge_def)
    next
      case LPCDECSTATE_ADDR
      with f lad rd False AddrDecode_inv [OF inv, of lad] show ?thesis
        by (simp add: falling_edge_def)
    next
      case LPCDECSTATE_DATA
      with f lad rd False DataDecode_inv [OF inv, of lad] show ?thesis
        by (simp add: falling_edge_def)
    next
      case LPCDECSTATE_TAR
      with f lad rd False TarDecode_inv [OF inv, of lad] show ?thesis
        by (simp add: falling_edge_def)
    next
      case LPCDECSTATE_SYNC
      with f lad rd False SyncDecode_inv [OF inv, of lad] show ?thesis
        by (simp add: falling_edge_def)
    next
      case LPCDECSTATE_32BIT_HACK
      with inv_phase_idx(8) [OF inv] show ?thesis by simp
    qed
  qed
qed

lemma decoder_inv_fClkLast [simp]: "decoder_inv (s\<lparr>fClkLast := c\<rparr>) = decoder_inv s"
  by (simp add: decoder_inv_def phase_history_def current_phase_def)

lemma Set_pins: "lpcDecStateSet s p = Some s' \<Longrightarrow> pins_in_byte s' = pins_in_byte s"
  by (auto simp: lpcDecStateSet_def pins_in_byte_def Let_def split: if_splits)

lemma Reset_pins [simp]: "pins_in_byte (lpcDecStateReset s) = pins_in_byte s"
  by (simp add: lpcDecStateReset_def pins_in_byte_def)

lemma upd_pins [simp]:
  "pins_in_byte (s\<lparr>cDataCycles := a\<rparr>) = pins_in_byte s"
  "pins_in_byte (s\<lparr>cTarCycles := a\<rparr>) = pins_in_byte s"
  "pins_in_byte (s\<lparr>cAddrCycles := a\<rparr>) = pins_in_byte s"
  "pins_in_byte (s\<lparr>iDataCycle := a\<rparr>) = pins_in_byte s"
  "pins_in_byte (s\<lparr>bData := a\<rparr>) = pins_in_byte s"
  "pins_in_byte (s\<lparr>u32Addr := v\<rparr>) = pins_in_byte s"
  "pins_in_byte (s\<lparr>bTyp := a\<rparr>) = pins_in_byte s"
  "pins_in_byte (s\<lparr>fWrite := a\<rparr>) = pins_in_byte s"
  "pins_in_byte (s\<lparr>bStartLast := a\<rparr>) = pins_in_byte s"
  "pins_in_byte (s\<lparr>uSeqNoCycle := q\<rparr>) = pins_in_byte s"
  "pins_in_byte (s\<lparr>fClkLast := a\<rparr>) = pins_in_byte s"
  by (simp_all add: pins_in_byte_def)

lemma advance_pins:
  "lpcDecStateSampleAdvance s = Some (s', out) \<Longrightarrow> pins_in_byte s' = pins_in_byte s"
  by (auto simp: lpcDecStateSampleAdvance_def split: LPCDECSTATE.splits if_splits Option.bind_splits
      dest!: Set_pins)

lemma StartDecode_pins:
  "lpcDecStateStartDecode s lad = Some (s', out) \<Longrightarrow> pins_in_byte s' = pins_in_byte s"
  by (auto simp: lpcDecStateStartDecode_def split: if_splits Option.bind_splits dest!: Set_pins)

lemma AddrDecode_pins:
  "lpcDecStateAddrDecode s lad = Some (s', out) \<Longrightarrow> pins_in_byte s' = pins_in_byte s"
  by (auto simp: lpcDecStateAddrDecode_def Let_def split: if_splits Option.bind_splits
      dest!: advance_pins)

lemma DataDecode_pins:
  "lpcDecStateDataDecode s lad = Some (s', out) \<Longrightarrow> pins_in_byte s' = pins_in_byte s"
  by (auto simp: lpcDecStateDataDecode_def Let_def split: if_splits Option.bind_splits
      dest!: advance_pins)

lemma TarDecode_pins:
  "lpcDecStateTarDecode s lad = Some (s', out) \<Longrightarrow> pins_in_byte s' = pins_in_byte s"
  by (auto simp: lpcDecStateTarDecode_def Let_def split: if_splits dest!: advance_pins)

lemma SyncDecode_pins:
  "lpcDecStateSyncDecode s lad = Some (s', out) \<Longrightarrow> pins_in_byte s' = pins_in_byte s"
  by (auto simp: lpcDecStateSyncDecode_def split: if_splits dest!: advance_pins)

lemma falling_edge_pins:
  "falling_edge s q x = Some (s', out) \<Longrightarrow> pins_in_byte s' = pins_in_byte s"
  by (auto simp: falling_edge_def Let_def split: if_splits Option.bind_splits LPCDECSTATE.splits
      dest!: Set_pins StartDecode_pins AddrDecode_pins DataDecode_pins TarDecode_pins
        SyncDecode_pins)

lemma process_inv:
  assumes inv: "decoder_inv s" and pins: "pins_in_byte s"
  shows "\<exists>s' out. lpcDecStateSampleProcess s q x = Some (0, s', out)
           \<and> decoder_inv s' \<and> pins_in_byte s'"
proof -
  from pins obtain c where c: "sample_flag x (u8BitLClk s) = Some c"
    using sample_flag_total [of "u8BitLClk s" x] by (auto simp: pins_in_byte_def)
  from falling_edge_inv [OF inv pins, of q x] obtain s1 out
    where fe: "falling_edge s q x = Some (s1, out)" and inv1: "decoder_inv s1"
    by blast
  from falling_edge_pins [OF fe] pins have "pins_in_byte s1" by simp
  with c fe inv1 inv pins show ?thesis
    by (simp add: lpcDecStateSampleProcess_def)
qed

lemma init_inv:
  "decoder_inv (lpcDecStateInit s0 c f l0 l1 l2 l3)"
  by (simp add: lpcDecStateInit_def lpcDecStateReset_def decoder_inv_at)

lemma init_pins:
  "pins_in_byte (lpcDecStateInit s0 c f l0 l1 l2 l3)
     \<longleftrightarrow> c < 8 \<and> f < 8 \<and> l0 < 8 \<and> l1 < 8 \<and> l2 < 8 \<and> l3 < 8"
  by (simp add: lpcDecStateInit_def lpcDecStateReset_def pins_in_byte_def)

lemma feed_inv:
  "decoder_inv s \<Longrightarrow> pins_in_byte s \<Longrightarrow>
   \<exists>s' out. lpcDecFeed s xs = Some (s', out) \<and> decoder_inv s' \<and> pins_in_byte s'"
proof (induction xs arbitrary: s)
  case Nil
  then show ?case by simp
next
  case (Cons a xs)
  obtain q x where a: "a = (q, x)" by (cases a)
  from process_inv [OF Cons.prems, of q x] obtain s1 out1
    where p: "lpcDecStateSampleProcess s q x = Some (0, s1, out1)"
      and i1: "decoder_inv s1" and p1: "pins_in_byte s1" by blast
  from Cons.IH [OF i1 p1] obtain s2 out2
    where "lpcDecFeed s1 xs = Some (s2, out2)" "decoder_inv s2" "pins_in_byte s2" by blast
  with a p show ?case by simp
qed

section \<open>The dispatch on a falling edge, the rows of the advancement switch\<close>

lemma process_frame_high:
  assumes "frame_high_edge s x lad" and "unat (idxState s) < 9"
  shows "lpcDecStateSampleProcess s q x =
           sample_done
             (case current_phase s of
                LPCDECSTATE_LFRAME_WAIT_ASSERTED \<Rightarrow> Some (s, [])
              | LPCDECSTATE_START \<Rightarrow> lpcDecStateStartDecode s lad
              | LPCDECSTATE_ADDR \<Rightarrow> lpcDecStateAddrDecode s lad
              | LPCDECSTATE_DATA \<Rightarrow> lpcDecStateDataDecode s lad
              | LPCDECSTATE_TAR \<Rightarrow> lpcDecStateTarDecode s lad
              | LPCDECSTATE_SYNC \<Rightarrow> lpcDecStateSyncDecode s lad
              | _ \<Rightarrow> Some (s, [Unknown_State (current_phase s)]))"
  using assms
  by (cases "current_phase s")
     (auto simp: frame_high_edge_def lpcDecStateSampleProcess_def falling_edge_def
        aenmState_read_cur sample_done_def split: Option.bind_splits)

lemma process_frame_low:
  assumes "frame_low_edge s x lad" and "unat (idxState s) < 9"
  shows "lpcDecStateSampleProcess s q x =
           sample_done
             (Some (s\<lparr>bStartLast := lad, uSeqNoCycle := q, idxState := 1, u32Addr := 0, bData := 0,
                     iDataCycle := 0,
                     aenmState := (aenmState s)(0 := LPCDECSTATE_LFRAME_WAIT_ASSERTED,
                                               1 := LPCDECSTATE_START)\<rparr>,
                   if current_phase s \<noteq> LPCDECSTATE_LFRAME_WAIT_ASSERTED
                      \<and> current_phase s \<noteq> LPCDECSTATE_START
                   then lpcDecStateDump s 1 else []))"
  using assms
  by (simp add: frame_low_edge_def lpcDecStateSampleProcess_def falling_edge_def
        aenmState_read_cur sample_done_def lpcDecStateSet_def lpcDecStateReset_def
        aenmState_capacity_def)

lemma advance_push:
  assumes "unat (idxState s) < 8"
  shows "current_phase s = LPCDECSTATE_ADDR \<Longrightarrow> fWrite s \<noteq> 0 \<Longrightarrow>
           lpcDecStateSampleAdvance s =
             Some (s\<lparr>idxState := idxState s + 1,
                     aenmState := (aenmState s)(Suc (unat (idxState s)) := LPCDECSTATE_DATA),
                     cDataCycles := 2\<rparr>, [])"
    and "current_phase s = LPCDECSTATE_ADDR \<Longrightarrow> fWrite s = 0 \<Longrightarrow>
           lpcDecStateSampleAdvance s =
             Some (s\<lparr>idxState := idxState s + 1,
                     aenmState := (aenmState s)(Suc (unat (idxState s)) := LPCDECSTATE_TAR),
                     cTarCycles := 2\<rparr>, [])"
    and "current_phase s = LPCDECSTATE_DATA \<Longrightarrow>
           lpcDecStateSampleAdvance s =
             Some (s\<lparr>idxState := idxState s + 1,
                     aenmState := (aenmState s)(Suc (unat (idxState s)) := LPCDECSTATE_TAR),
                     cTarCycles := 2\<rparr>, [])"
    and "current_phase s = LPCDECSTATE_SYNC \<Longrightarrow> fWrite s \<noteq> 0 \<Longrightarrow>
           lpcDecStateSampleAdvance s =
             Some (s\<lparr>idxState := idxState s + 1,
                     aenmState := (aenmState s)(Suc (unat (idxState s)) := LPCDECSTATE_TAR),
                     cTarCycles := 2\<rparr>, [])"
    and "current_phase s = LPCDECSTATE_SYNC \<Longrightarrow> fWrite s = 0 \<Longrightarrow>
           lpcDecStateSampleAdvance s =
             Some (s\<lparr>idxState := idxState s + 1,
                     aenmState := (aenmState s)(Suc (unat (idxState s)) := LPCDECSTATE_DATA),
                     cDataCycles := 2\<rparr>, [])"
  using assms
  by (simp_all add: lpcDecStateSampleAdvance_def aenmState_read_cur lpcDecStateSet_Some)

lemma aenmState_read_prev:
  "unat (idxState s) < 9 \<Longrightarrow> idxState s \<noteq> 0 \<Longrightarrow>
   aenmState_read s (idxState s - 1) = Some (previous_phase s)"
  by (simp add: aenmState_read_def previous_phase_def aenmState_capacity_def unat_minus_one)

lemma advance_TAR:
  assumes "unat (idxState s) < 8" and "idxState s \<noteq> 0"
    and "current_phase s = LPCDECSTATE_TAR"
  shows "previous_phase s = (if fWrite s \<noteq> 0 then LPCDECSTATE_DATA else LPCDECSTATE_ADDR) \<Longrightarrow>
           lpcDecStateSampleAdvance s =
             Some (s\<lparr>idxState := idxState s + 1,
                     aenmState := (aenmState s)(Suc (unat (idxState s)) := LPCDECSTATE_SYNC)\<rparr>,
                   [])"
    and "previous_phase s \<noteq> (if fWrite s \<noteq> 0 then LPCDECSTATE_DATA else LPCDECSTATE_ADDR) \<Longrightarrow>
           lpcDecStateSampleAdvance s = Some (lpcDecStateReset s, lpcDecStateDump s 0)"
  using assms
  by (auto simp: lpcDecStateSampleAdvance_def aenmState_read_cur aenmState_read_prev
      lpcDecStateSet_Some split: if_splits)

lemma advance_unknown:
  assumes "unat (idxState s) < 9"
    and "current_phase s = LPCDECSTATE_INVALID \<or> current_phase s = LPCDECSTATE_START
         \<or> current_phase s = LPCDECSTATE_32BIT_HACK"
  shows "lpcDecStateSampleAdvance s = Some (s, [Unknown_State (current_phase s)])"
  using assms by (auto simp: lpcDecStateSampleAdvance_def aenmState_read_cur)

lemma advance_idle:
  assumes "unat (idxState s) < 9" and "current_phase s = LPCDECSTATE_LFRAME_WAIT_ASSERTED"
  shows "lpcDecStateSampleAdvance s = Some (s, [])"
  using assms by (auto simp: lpcDecStateSampleAdvance_def aenmState_read_cur)

lemma phase_history_upd [simp]:
  "phase_history (s\<lparr>cDataCycles := a\<rparr>) = phase_history s"
  "phase_history (s\<lparr>cTarCycles := a\<rparr>) = phase_history s"
  "phase_history (s\<lparr>cAddrCycles := a\<rparr>) = phase_history s"
  "phase_history (s\<lparr>iDataCycle := a\<rparr>) = phase_history s"
  "phase_history (s\<lparr>bData := a\<rparr>) = phase_history s"
  "phase_history (s\<lparr>u32Addr := v\<rparr>) = phase_history s"
  "phase_history (s\<lparr>bTyp := a\<rparr>) = phase_history s"
  "phase_history (s\<lparr>fWrite := a\<rparr>) = phase_history s"
  "phase_history (s\<lparr>bStartLast := a\<rparr>) = phase_history s"
  "phase_history (s\<lparr>uSeqNoCycle := q\<rparr>) = phase_history s"
  "phase_history (s\<lparr>fClkLast := a\<rparr>) = phase_history s"
  by (simp_all add: phase_history_def)

lemma current_phase_upd [simp]:
  "current_phase (s\<lparr>cDataCycles := a\<rparr>) = current_phase s"
  "current_phase (s\<lparr>cTarCycles := a\<rparr>) = current_phase s"
  "current_phase (s\<lparr>cAddrCycles := a\<rparr>) = current_phase s"
  "current_phase (s\<lparr>iDataCycle := a\<rparr>) = current_phase s"
  "current_phase (s\<lparr>bData := a\<rparr>) = current_phase s"
  "current_phase (s\<lparr>u32Addr := v\<rparr>) = current_phase s"
  "current_phase (s\<lparr>bTyp := a\<rparr>) = current_phase s"
  "current_phase (s\<lparr>fWrite := a\<rparr>) = current_phase s"
  "current_phase (s\<lparr>bStartLast := a\<rparr>) = current_phase s"
  "current_phase (s\<lparr>uSeqNoCycle := q\<rparr>) = current_phase s"
  "current_phase (s\<lparr>fClkLast := a\<rparr>) = current_phase s"
  by (simp_all add: current_phase_def)

lemma previous_phase_upd [simp]:
  "previous_phase (s\<lparr>cTarCycles := a\<rparr>) = previous_phase s"
  by (simp_all add: previous_phase_def)

section \<open>Bits of the type and direction nibble, the data byte\<close>

lemma type_bits: "unat (LPC_DEC_CYC_TYPE_GET (a::u8)) = unat a div 4 mod 4"
proof -
  have "drop_bit 2 (a AND 0xc) = drop_bit 2 a AND 3"
    by simp
  also have "\<dots> = take_bit 2 (drop_bit 2 a)"
    by (simp add: take_bit_eq_mask mask_numeral)
  finally have "LPC_DEC_CYC_TYPE_GET a = take_bit 2 (drop_bit 2 a)"
    by (simp add: LPC_DEC_CYC_TYPE_GET_def)
  then show ?thesis
    by (simp add: take_bit_eq_mod drop_bit_eq_div unat_div unat_mod)
qed

lemma dir_bit: "LPC_DEC_CYC_DIR_IS_READ (a::u8) \<longleftrightarrow> \<not> bit a 1"
  using and_exp_eq_0_iff_not_bit [of a 1] by (simp add: LPC_DEC_CYC_DIR_IS_READ_def)

lemma data_or: "(ucast (ucast (b::u8) OR push_bit n (ucast (l::u8) :: u32)) :: u8) = b OR push_bit n l"
  by (rule bit_word_eqI) (auto simp: bit_simps)

section \<open>The decoders step by step\<close>

lemma Dump_cycle_line:
  "[e \<leftarrow> lpcDecStateDump s fAbort. e \<noteq> Wait_What]
     = [Decoded_Cycle
          \<lparr>cl_seq = uSeqNoCycle s, cl_typ = bTyp s, cl_write = (fWrite s \<noteq> 0),
           cl_addr = u32Addr s, cl_data = bData s, cl_chain = phase_history s,
           cl_abort = (fAbort \<noteq> 0)\<rparr>]"
  by (simp add: lpcDecStateDump_def)

lemma frame_low_result:
  assumes "frame_low_edge s x lad" and "unat (idxState s) < 9"
  shows "\<exists>s1. lpcDecStateSet (lpcDecStateReset (s\<lparr>bStartLast := lad, uSeqNoCycle := q\<rparr>))
                 LPCDECSTATE_START = Some s1
           \<and> lpcDecStateSampleProcess s q x
               = Some (0, s1\<lparr>fClkLast := 0\<rparr>,
                       if current_phase s \<noteq> LPCDECSTATE_LFRAME_WAIT_ASSERTED
                          \<and> current_phase s \<noteq> LPCDECSTATE_START
                       then lpcDecStateDump s 1 else [])
           \<and> bStartLast s1 = lad \<and> uSeqNoCycle s1 = q
           \<and> phase_history (s1\<lparr>fClkLast := 0\<rparr>)
               = [LPCDECSTATE_LFRAME_WAIT_ASSERTED, LPCDECSTATE_START]
           \<and> current_phase (s1\<lparr>fClkLast := 0\<rparr>) = LPCDECSTATE_START
           \<and> u32Addr s1 = 0 \<and> bData s1 = 0 \<and> iDataCycle s1 = 0"
  using assms
  by (simp add: process_frame_low sample_done_def lpcDecStateSet_def lpcDecStateReset_def
      aenmState_capacity_def phase_history_1 current_phase_def)

lemma StartDecode_target:
  assumes "bStartLast s = LPC_DEC_START_TARGET_CYCLE" and "unat (idxState s) < 8"
  shows "lpcDecStateStartDecode s lad =
           (if LPC_DEC_CYC_TYPE_GET lad = LPC_DEC_CYC_TYPE_IO
               \<or> LPC_DEC_CYC_TYPE_GET lad = LPC_DEC_CYC_TYPE_MEM
            then Some (s\<lparr>bTyp := LPC_DEC_CYC_TYPE_GET lad,
                         fWrite := (if LPC_DEC_CYC_DIR_IS_READ lad then 0 else 1),
                         u32Addr := 0, idxState := idxState s + 1,
                         aenmState := (aenmState s)(Suc (unat (idxState s)) := LPCDECSTATE_ADDR),
                         cAddrCycles := (if LPC_DEC_CYC_TYPE_GET lad = LPC_DEC_CYC_TYPE_IO
                                         then 4 else 8)\<rparr>, [])
            else Some (lpcDecStateReset
                         (s\<lparr>bTyp := LPC_DEC_CYC_TYPE_GET lad,
                            fWrite := (if LPC_DEC_CYC_DIR_IS_READ lad then 0 else 1),
                            u32Addr := 0, idxState := idxState s + 1,
                            aenmState :=
                              (aenmState s)(Suc (unat (idxState s)) := LPCDECSTATE_ADDR)\<rparr>),
                       [Illegal_Cycle_Type (LPC_DEC_CYC_TYPE_GET lad)]))"
  using assms by (simp add: lpcDecStateStartDecode_def lpcDecStateSet_Some)

lemma reached_inv:
  assumes "lpcDecFeed (lpcDecStateInit s0 c f l0 l1 l2 l3) samples = Some (s, out0)"
    and "c < 8" "f < 8" "l0 < 8" "l1 < 8" "l2 < 8" "l3 < 8"
  shows "decoder_inv s" and "pins_in_byte s"
proof -
  have "pins_in_byte (lpcDecStateInit s0 c f l0 l1 l2 l3)"
    using assms(2-) by (simp add: init_pins)
  from feed_inv [OF init_inv this, of samples] assms(1)
  show "decoder_inv s" and "pins_in_byte s" by auto
qed

lemma AddrDecode_unfold:
  assumes "unat (cAddrCycles s - 1) < 8"
  shows "lpcDecStateAddrDecode s bLad =
           (if cAddrCycles s - 1 = 0
            then lpcDecStateSampleAdvance
                   (s\<lparr>cAddrCycles := cAddrCycles s - 1,
                      u32Addr := u32Addr s
                        OR push_bit (unat (cAddrCycles s - 1) * 4) (ucast bLad)\<rparr>)
            else Some (s\<lparr>cAddrCycles := cAddrCycles s - 1,
                         u32Addr := u32Addr s
                           OR push_bit (unat (cAddrCycles s - 1) * 4) (ucast bLad)\<rparr>, []))"
  using assms by (simp add: lpcDecStateAddrDecode_def shl_int_def Let_def)

lemma AddrDecode_step:
  assumes "decoder_inv s" and "current_phase s = LPCDECSTATE_ADDR"
  shows "\<exists>s'. lpcDecStateAddrDecode s bLad = Some (s', [])
           \<and> cAddrCycles s' = cAddrCycles s - 1
           \<and> unat (cAddrCycles s') < 8
           \<and> u32Addr s' = u32Addr s OR push_bit (unat (cAddrCycles s') * 4) (ucast bLad)
           \<and> (cAddrCycles s' \<noteq> 0 \<longrightarrow> phase_history s' = phase_history s)
           \<and> (cAddrCycles s' = 0 \<longrightarrow>
                phase_history s'
                  = phase_history s
                    @ [if fWrite s \<noteq> 0 then LPCDECSTATE_DATA else LPCDECSTATE_TAR])"
proof -
  have i: "idxState s = 2" using assms by (rule inv_phase_idx)
  with assms(1) have c: "0 < cAddrCycles s" "cAddrCycles s \<le> 8"
    by (simp_all add: decoder_inv_at)
  from addr_count_dec [OF c] have e: "unat (cAddrCycles s - 1) < 8" by simp
  define s1 where "s1 = s\<lparr>cAddrCycles := cAddrCycles s - 1,
      u32Addr := u32Addr s OR push_bit (unat (cAddrCycles s - 1) * 4) (ucast bLad)\<rparr>"
  have s1: "unat (idxState s1) < 8" "current_phase s1 = LPCDECSTATE_ADDR"
    "fWrite s1 = fWrite s" "phase_history s1 = phase_history s"
    "cAddrCycles s1 = cAddrCycles s - 1" "idxState s1 = idxState s"
    "u32Addr s1 = u32Addr s OR push_bit (unat (cAddrCycles s - 1) * 4) (ucast bLad)"
    using i assms(2) by (simp_all add: s1_def)
  note u = AddrDecode_unfold [OF e, of bLad, folded s1_def]
  show ?thesis
  proof (cases "cAddrCycles s - 1 = 0")
    case False
    with u s1 e show ?thesis by simp
  next
    case True
    show ?thesis
    proof (cases "fWrite s = 0")
      case w: True
      from advance_push(2) [OF s1(1,2)] w s1(3)
      have "lpcDecStateSampleAdvance s1 =
             Some (s1\<lparr>idxState := idxState s1 + 1,
                     aenmState := (aenmState s1)(Suc (unat (idxState s1)) := LPCDECSTATE_TAR),
                     cTarCycles := 2\<rparr>, [])" by simp
      with u True s1(4,5,7) e phase_history_push [OF s1(1), of LPCDECSTATE_TAR] w
      show ?thesis by simp
    next
      case w: False
      from advance_push(1) [OF s1(1,2)] w s1(3)
      have "lpcDecStateSampleAdvance s1 =
             Some (s1\<lparr>idxState := idxState s1 + 1,
                     aenmState := (aenmState s1)(Suc (unat (idxState s1)) := LPCDECSTATE_DATA),
                     cDataCycles := 2\<rparr>, [])" by simp
      with u True s1(4,5,7) e phase_history_push [OF s1(1), of LPCDECSTATE_DATA] w
      show ?thesis by simp
    qed
  qed
qed

lemma DataDecode_unfold:
  assumes "unat (iDataCycle s) < 8"
  shows "lpcDecStateDataDecode s bLad =
           (if iDataCycle s + 1 = cDataCycles s
            then lpcDecStateSampleAdvance
                   (s\<lparr>bData := bData s OR push_bit (unat (iDataCycle s) * 4) bLad,
                      iDataCycle := iDataCycle s + 1\<rparr>)
            else Some (s\<lparr>bData := bData s OR push_bit (unat (iDataCycle s) * 4) bLad,
                         iDataCycle := iDataCycle s + 1\<rparr>, []))"
  using assms by (simp add: lpcDecStateDataDecode_def shl_int_def Let_def data_or)

lemma DataDecode_step:
  assumes "decoder_inv s" and "current_phase s = LPCDECSTATE_DATA"
  shows "cDataCycles s = 2 \<and> iDataCycle s < 2
       \<and> (\<exists>s'. lpcDecStateDataDecode s bLad = Some (s', [])
             \<and> bData s' = bData s OR push_bit (unat (iDataCycle s) * 4) bLad
             \<and> iDataCycle s' = iDataCycle s + 1
             \<and> (iDataCycle s' = 2 \<longrightarrow>
                  phase_history s' = phase_history s @ [LPCDECSTATE_TAR] \<and> cTarCycles s' = 2)
             \<and> (iDataCycle s' \<noteq> 2 \<longrightarrow> phase_history s' = phase_history s))"
proof -
  from assms have d: "cDataCycles s = 2" "iDataCycle s < 2"
    by (simp_all add: decoder_inv_def)
  from u8_lt_2 [OF d(2)] have e: "unat (iDataCycle s) < 8" by auto
  from decoder_inv_idx [OF assms(1)] have j: "unat (idxState s) < 8" by simp
  define s2 where "s2 = s\<lparr>bData := bData s OR push_bit (unat (iDataCycle s) * 4) bLad,
                      iDataCycle := iDataCycle s + 1\<rparr>"
  have s2: "unat (idxState s2) < 8" "current_phase s2 = LPCDECSTATE_DATA"
    "phase_history s2 = phase_history s" "iDataCycle s2 = iDataCycle s + 1"
    "bData s2 = bData s OR push_bit (unat (iDataCycle s) * 4) bLad"
    using j assms(2) by (simp_all add: s2_def)
  note u = DataDecode_unfold [OF e, of bLad, folded s2_def]
  have x: "\<exists>s'. lpcDecStateDataDecode s bLad = Some (s', [])
             \<and> bData s' = bData s OR push_bit (unat (iDataCycle s) * 4) bLad
             \<and> iDataCycle s' = iDataCycle s + 1
             \<and> (iDataCycle s' = 2 \<longrightarrow>
                  phase_history s' = phase_history s @ [LPCDECSTATE_TAR] \<and> cTarCycles s' = 2)
             \<and> (iDataCycle s' \<noteq> 2 \<longrightarrow> phase_history s' = phase_history s)"
  proof (cases "iDataCycle s + 1 = 2")
    case False
    with u s2 d(1) show ?thesis by simp
  next
    case True
    from advance_push(3) [OF s2(1,2)]
    have "lpcDecStateSampleAdvance s2 =
             Some (s2\<lparr>idxState := idxState s2 + 1,
                     aenmState := (aenmState s2)(Suc (unat (idxState s2)) := LPCDECSTATE_TAR),
                     cTarCycles := 2\<rparr>, [])" .
    with u True s2(3,4,5) d(1) phase_history_push [OF s2(1), of LPCDECSTATE_TAR]
    show ?thesis by simp
  qed
  from d x show ?thesis by blast
qed

section \<open>The example states\<close>

lemmas main_init_defs = main_init_def lpcDecStateInit_def lpcDecStateReset_def uninitialised_def

lemma mid_address_reached:
  "lpcDecFeed main_init (take 9 mem_write_capture) = Some (mid_address, [])"
  by (simp add: mem_write_capture_def clock_period_def wire_def main_init_def mid_address_def
      lpcDecStateInit_def lpcDecStateReset_def lpcDecStateSampleProcess_def sample_flag_def
      shl_int_def falling_edge_def lpcDecStateLadExtractFromSample_def sample_bit_def
      aenmState_read_def aenmState_capacity_def lpcDecStateSet_def
      lpcDecStateStartDecode_def lpcDecStateAddrDecode_def
      LPC_DEC_START_TARGET_CYCLE_def LPC_DEC_CYC_TYPE_GET_def LPC_DEC_CYC_DIR_IS_READ_def
      LPC_DEC_CYC_TYPE_IO_def LPC_DEC_CYC_TYPE_MEM_def uninitialised_def fun_upd_twist)

lemma mid_address_facts:
  "unat (idxState mid_address) < aenmState_capacity"
  "current_phase mid_address = LPCDECSTATE_ADDR"
  "frame_low_edge mid_address 0x3c 0xf"
  "frame_high_edge mid_address 0x32 3"
  "phase_history mid_address
     = [LPCDECSTATE_LFRAME_WAIT_ASSERTED, LPCDECSTATE_START, LPCDECSTATE_ADDR]"
  "lpcDecStateDump mid_address 1
     = [Decoded_Cycle
          \<lparr>cl_seq = 1, cl_typ = 1, cl_write = True, cl_addr = 0x12000000, cl_data = 0,
           cl_chain = [LPCDECSTATE_LFRAME_WAIT_ASSERTED, LPCDECSTATE_START, LPCDECSTATE_ADDR],
           cl_abort = True\<rparr>]"
  by (simp_all add: mid_address_def main_init_defs aenmState_capacity_def current_phase_def
      frame_high_edge_def frame_low_edge_def sample_flag_def shl_int_def
      lpcDecStateLadExtractFromSample_def sample_bit_def phase_history_2 lpcDecStateDump_def
      LPC_DEC_CYC_TYPE_MEM_def)

lemma start_seen_reached:
  "lpcDecFeed main_init (take 3 mem_write_capture) = Some (start_seen, [])"
  by (simp add: mem_write_capture_def clock_period_def wire_def main_init_defs start_seen_def
      lpcDecStateSampleProcess_def sample_flag_def
      shl_int_def falling_edge_def lpcDecStateLadExtractFromSample_def sample_bit_def
      aenmState_read_def aenmState_capacity_def lpcDecStateSet_def)

lemma start_seen_facts:
  "current_phase start_seen = LPCDECSTATE_START"
  "bStartLast start_seen = LPC_DEC_START_TARGET_CYCLE"
  "unat (idxState start_seen) < 8"
  "frame_high_edge start_seen 0x1a 6"
  "frame_high_edge start_seen 0x0a 4"
  "frame_high_edge start_seen 0x06 8"
  "phase_history start_seen = [LPCDECSTATE_LFRAME_WAIT_ASSERTED, LPCDECSTATE_START]"
  by (simp_all add: start_seen_def main_init_defs current_phase_def
      frame_high_edge_def sample_flag_def shl_int_def LPC_DEC_START_TARGET_CYCLE_def
      lpcDecStateLadExtractFromSample_def sample_bit_def phase_history_1)

lemma data_entry_reached:
  "lpcDecFeed main_init (take 21 mem_write_capture) = Some (data_entry, [])"
  by (simp add: mem_write_capture_def clock_period_def wire_def main_init_defs data_entry_def
      lpcDecStateSampleProcess_def sample_flag_def
      shl_int_def falling_edge_def lpcDecStateLadExtractFromSample_def sample_bit_def
      aenmState_read_def aenmState_capacity_def lpcDecStateSet_def
      lpcDecStateStartDecode_def lpcDecStateAddrDecode_def lpcDecStateSampleAdvance_def
      LPC_DEC_START_TARGET_CYCLE_def LPC_DEC_CYC_TYPE_GET_def LPC_DEC_CYC_DIR_IS_READ_def
      LPC_DEC_CYC_TYPE_IO_def LPC_DEC_CYC_TYPE_MEM_def fun_upd_twist)

lemma data_entry_facts:
  "current_phase data_entry = LPCDECSTATE_DATA"
  "frame_high_edge data_entry 0x36 0xb"
  "iDataCycle data_entry = 0"
  "bData data_entry = 0"
  by (simp_all add: data_entry_def main_init_defs current_phase_def
      frame_high_edge_def sample_flag_def shl_int_def
      lpcDecStateLadExtractFromSample_def sample_bit_def)

lemma last_turnaround_reached:
  "lpcDecFeed main_init (take 31 mem_write_capture) = Some (last_turnaround, [])"
  by (simp add: mem_write_capture_def clock_period_def wire_def main_init_defs last_turnaround_def
      lpcDecStateSampleProcess_def sample_flag_def
      shl_int_def falling_edge_def lpcDecStateLadExtractFromSample_def sample_bit_def
      aenmState_read_def aenmState_capacity_def lpcDecStateSet_def
      lpcDecStateStartDecode_def lpcDecStateAddrDecode_def lpcDecStateSampleAdvance_def
      lpcDecStateDataDecode_def lpcDecStateTarDecode_def lpcDecStateSyncDecode_def
      LPC_DEC_START_TARGET_CYCLE_def LPC_DEC_CYC_TYPE_GET_def LPC_DEC_CYC_DIR_IS_READ_def
      LPC_DEC_CYC_TYPE_IO_def LPC_DEC_CYC_TYPE_MEM_def fun_upd_twist)

lemma last_turnaround_facts:
  "unat (idxState last_turnaround) < 8"
  "idxState last_turnaround \<noteq> 0"
  "current_phase last_turnaround = LPCDECSTATE_TAR"
  "previous_phase last_turnaround = LPCDECSTATE_SYNC"
  "fWrite last_turnaround \<noteq> 0"
  "cTarCycles last_turnaround = 2"
  by (simp_all add: last_turnaround_def main_init_defs current_phase_def previous_phase_def)

lemma corrupted_facts:
  "unat (idxState corrupted) < aenmState_capacity"
  "current_phase corrupted = LPCDECSTATE_INVALID"
  "frame_high_edge corrupted 0x02 0"
  by (simp_all add: corrupted_def main_init_defs aenmState_capacity_def current_phase_def
      frame_high_edge_def sample_flag_def shl_int_def lpcDecStateLadExtractFromSample_def
      sample_bit_def)

lemma mem_write_capture_decoded:
  "map_option snd (lpcDecFeed main_init mem_write_capture)
     = Some [Decoded_Cycle
               \<lparr>cl_seq = 1, cl_typ = 1, cl_write = True, cl_addr = 0x12340000, cl_data = 0xab,
                cl_chain = cycle_phases True, cl_abort = False\<rparr>]"
  by code_simp

lemma io_read_capture_decoded:
  "map_option snd (lpcDecFeed main_init io_read_capture)
     = Some [Decoded_Cycle
               \<lparr>cl_seq = 1, cl_typ = 0, cl_write = False, cl_addr = 0x0064, cl_data = 0x42,
                cl_chain = cycle_phases False, cl_abort = False\<rparr>]"
  by code_simp

lemma last_address_reached:
  "lpcDecFeed main_init (take 19 mem_write_capture) = Some (last_address, [])"
  by (simp add: mem_write_capture_def clock_period_def wire_def main_init_defs last_address_def
      lpcDecStateSampleProcess_def sample_flag_def
      shl_int_def falling_edge_def lpcDecStateLadExtractFromSample_def sample_bit_def
      aenmState_read_def aenmState_capacity_def lpcDecStateSet_def
      lpcDecStateStartDecode_def lpcDecStateAddrDecode_def lpcDecStateSampleAdvance_def
      LPC_DEC_START_TARGET_CYCLE_def LPC_DEC_CYC_TYPE_GET_def LPC_DEC_CYC_DIR_IS_READ_def
      LPC_DEC_CYC_TYPE_IO_def LPC_DEC_CYC_TYPE_MEM_def fun_upd_twist)

lemma last_address_step:
  "lpcDecStateSampleProcess last_address 19 0x02 = Some (0, data_entry\<lparr>fClkLast := 0\<rparr>, [])"
  by (simp add: main_init_defs last_address_def data_entry_def
      lpcDecStateSampleProcess_def sample_flag_def
      shl_int_def falling_edge_def lpcDecStateLadExtractFromSample_def sample_bit_def
      aenmState_read_def aenmState_capacity_def lpcDecStateSet_def
      lpcDecStateAddrDecode_def lpcDecStateSampleAdvance_def fun_upd_twist)

lemma last_address_facts:
  "phase_history last_address
     = [LPCDECSTATE_LFRAME_WAIT_ASSERTED, LPCDECSTATE_START, LPCDECSTATE_ADDR]"
  "phase_history data_entry
     = [LPCDECSTATE_LFRAME_WAIT_ASSERTED, LPCDECSTATE_START, LPCDECSTATE_ADDR,
        LPCDECSTATE_DATA]"
  by (simp_all add: last_address_def data_entry_def main_init_defs phase_history_2
      phase_history_3 current_phase_def)

section \<open>Entering the data phase\<close>

lemma StartDecode_no_entry:
  assumes "decoder_inv s" and "current_phase s = LPCDECSTATE_START"
    and "lpcDecStateStartDecode s lad = Some (t, out)"
  shows "current_phase t \<noteq> LPCDECSTATE_DATA"
proof -
  have i: "idxState s = 1" using assms(1,2) by (rule inv_phase_idx)
  with assms show ?thesis
    by (auto simp: decoder_inv_at lpcDecStateStartDecode_def lpcDecStateSet_def
        aenmState_capacity_def lpcDecStateReset_def Let_def current_phase_def
        split: if_splits)
qed

lemma AddrDecode_entry:
  assumes "decoder_inv s" and "current_phase s = LPCDECSTATE_ADDR"
    and "lpcDecStateAddrDecode s lad = Some (t, out)"
    and "current_phase t = LPCDECSTATE_DATA"
  shows "iDataCycle t = 0 \<and> bData t = 0 \<and> cDataCycles t = 2"
proof -
  have i: "idxState s = 2" using assms(1,2) by (rule inv_phase_idx)
  with assms(1) have c: "0 < cAddrCycles s" "cAddrCycles s \<le> 8"
    by (simp_all add: decoder_inv_at)
  note d = addr_count_dec [OF c]
  from i assms d show ?thesis
    by (auto simp: decoder_inv_at lpcDecStateAddrDecode_def lpcDecStateSet_def shl_int_def
        aenmState_capacity_def lpcDecStateSampleAdvance_def aenmState_read_def Let_def
        current_phase_def split: if_splits)
qed

lemma DataDecode_no_entry:
  assumes "decoder_inv s" and "current_phase s = LPCDECSTATE_DATA"
    and "lpcDecStateDataDecode s lad = Some (t, out)"
    and "current_phase t = LPCDECSTATE_DATA"
  shows "phase_history t = phase_history s"
proof -
  from DataDecode_step [OF assms(1,2), of lad] assms(3)
  have h: "(iDataCycle t = 2 \<longrightarrow> phase_history t = phase_history s @ [LPCDECSTATE_TAR])
         \<and> (iDataCycle t \<noteq> 2 \<longrightarrow> phase_history t = phase_history s)"
    by auto
  from DataDecode_inv [OF assms(1,2), of lad] assms(3) have it: "decoder_inv t" by auto
  with assms(4) have "iDataCycle t < 2" by (simp add: decoder_inv_def)
  then have "iDataCycle t \<noteq> 2" by auto
  with h show ?thesis by simp
qed

lemma TarDecode_no_entry:
  assumes "decoder_inv s" and "current_phase s = LPCDECSTATE_TAR"
    and "lpcDecStateTarDecode s lad = Some (t, out)"
  shows "current_phase t \<noteq> LPCDECSTATE_DATA"
proof -
  from inv_phase_idx(6) [OF assms(1,2)] have "idxState s = 3 \<or> idxState s = 4 \<or> idxState s = 6"
    by (auto split: if_splits)
  then show ?thesis
  proof (elim disjE)
    assume i: "idxState s = 3"
    with assms show ?thesis
      by (auto simp: decoder_inv_at lpcDecStateTarDecode_def lpcDecStateSet_def
          lpcDecStateReset_def aenmState_capacity_def lpcDecStateSampleAdvance_def
          aenmState_read_def Let_def current_phase_def split: if_splits)
  next
    assume i: "idxState s = 4"
    with assms show ?thesis
      by (auto simp: decoder_inv_at lpcDecStateTarDecode_def lpcDecStateSet_def
          lpcDecStateReset_def aenmState_capacity_def lpcDecStateSampleAdvance_def
          aenmState_read_def Let_def current_phase_def split: if_splits)
  next
    assume i: "idxState s = 6"
    with assms show ?thesis
      by (auto simp: decoder_inv_at lpcDecStateTarDecode_def lpcDecStateSet_def
          lpcDecStateReset_def aenmState_capacity_def lpcDecStateSampleAdvance_def
          aenmState_read_def Let_def current_phase_def split: if_splits)
  qed
qed

lemma SyncDecode_entry:
  assumes "decoder_inv s" and "current_phase s = LPCDECSTATE_SYNC"
    and "lpcDecStateSyncDecode s lad = Some (t, out)"
    and "current_phase t = LPCDECSTATE_DATA"
  shows "iDataCycle t = 0 \<and> bData t = 0 \<and> cDataCycles t = 2"
proof -
  from inv_phase_idx(5) [OF assms(1,2)] have "idxState s = 4 \<or> idxState s = 5"
    by (auto split: if_splits)
  then show ?thesis
  proof (elim disjE)
    assume i: "idxState s = 4"
    with assms show ?thesis
      by (auto simp: decoder_inv_at lpcDecStateSyncDecode_def lpcDecStateSet_def
          aenmState_capacity_def lpcDecStateSampleAdvance_def
          aenmState_read_def Let_def current_phase_def split: if_splits)
  next
    assume i: "idxState s = 5"
    with assms show ?thesis
      by (auto simp: decoder_inv_at lpcDecStateSyncDecode_def lpcDecStateSet_def
          aenmState_capacity_def lpcDecStateSampleAdvance_def
          aenmState_read_def Let_def current_phase_def split: if_splits)
  qed
qed

lemma falling_edge_entry:
  assumes inv: "decoder_inv s"
    and fe: "falling_edge s q x = Some (t, out)"
    and d: "current_phase t = LPCDECSTATE_DATA"
    and h: "phase_history t \<noteq> phase_history s"
  shows "iDataCycle t = 0 \<and> bData t = 0 \<and> cDataCycles t = 2"
proof -
  note rd = aenmState_read_inv [OF inv]
  from fe obtain f lad where f: "sample_flag x (u8BitLFrame s) = Some f"
    and lad: "lpcDecStateLadExtractFromSample s x = Some lad"
    by (auto simp: falling_edge_def split: Option.bind_splits)
  show ?thesis
  proof (cases "f = 0")
    case True
    with fe f lad rd d show ?thesis
      by (auto simp: falling_edge_def lpcDecStateSet_def lpcDecStateReset_def
          aenmState_capacity_def current_phase_def split: if_splits)
  next
    case False
    show ?thesis
    proof (cases "current_phase s")
      case LPCDECSTATE_INVALID
      with inv_phase_idx(7) [OF inv] show ?thesis by simp
    next
      case LPCDECSTATE_LFRAME_WAIT_ASSERTED
      with fe f lad rd False h show ?thesis by (simp add: falling_edge_def)
    next
      case LPCDECSTATE_START
      with fe f lad rd False have "lpcDecStateStartDecode s lad = Some (t, out)"
        by (simp add: falling_edge_def)
      from StartDecode_no_entry [OF inv LPCDECSTATE_START this] d show ?thesis by simp
    next
      case LPCDECSTATE_ADDR
      with fe f lad rd False have "lpcDecStateAddrDecode s lad = Some (t, out)"
        by (simp add: falling_edge_def)
      from AddrDecode_entry [OF inv LPCDECSTATE_ADDR this d] show ?thesis .
    next
      case LPCDECSTATE_DATA
      with fe f lad rd False have "lpcDecStateDataDecode s lad = Some (t, out)"
        by (simp add: falling_edge_def)
      from DataDecode_no_entry [OF inv LPCDECSTATE_DATA this d] h show ?thesis by simp
    next
      case LPCDECSTATE_TAR
      with fe f lad rd False have "lpcDecStateTarDecode s lad = Some (t, out)"
        by (simp add: falling_edge_def)
      from TarDecode_no_entry [OF inv LPCDECSTATE_TAR this] d show ?thesis by simp
    next
      case LPCDECSTATE_SYNC
      with fe f lad rd False have "lpcDecStateSyncDecode s lad = Some (t, out)"
        by (simp add: falling_edge_def)
      from SyncDecode_entry [OF inv LPCDECSTATE_SYNC this d] show ?thesis .
    next
      case LPCDECSTATE_32BIT_HACK
      with inv_phase_idx(8) [OF inv] show ?thesis by simp
    qed
  qed
qed

lemma process_entry:
  assumes inv: "decoder_inv s"
    and p: "lpcDecStateSampleProcess s q x = Some (rc, t, out)"
    and d: "current_phase t = LPCDECSTATE_DATA"
    and h: "phase_history t \<noteq> phase_history s"
  shows "iDataCycle t = 0 \<and> bData t = 0 \<and> cDataCycles t = 2"
proof -
  from p obtain c where c: "sample_flag x (u8BitLClk s) = Some c"
    by (auto simp: lpcDecStateSampleProcess_def split: Option.bind_splits)
  show ?thesis
  proof (cases "c \<noteq> fClkLast s \<and> fClkLast s \<noteq> 0 \<and> c = 0")
    case False
    with p c h show ?thesis
      by (auto simp: lpcDecStateSampleProcess_def split: if_splits)
  next
    case True
    with p c obtain t0 where fe: "falling_edge s q x = Some (t0, out)"
      and t: "t = t0\<lparr>fClkLast := c\<rparr>"
      by (auto simp: lpcDecStateSampleProcess_def split: Option.bind_splits)
    from d h t have "current_phase t0 = LPCDECSTATE_DATA" "phase_history t0 \<noteq> phase_history s"
      by simp_all
    from falling_edge_entry [OF inv fe this] t show ?thesis by simp
  qed
qed

lemma current_phase_last: "current_phase s = last (phase_history s)"
  by (simp add: current_phase_def phase_history_def)

lemma DataDecode_two_nibbles:
  assumes inv: "decoder_inv s" and ph: "current_phase s = LPCDECSTATE_DATA"
    and z: "iDataCycle s = 0"
  shows "\<exists>s1 s2. lpcDecStateDataDecode s n1 = Some (s1, [])
           \<and> phase_history s1 = phase_history s \<and> iDataCycle s1 = 1 \<and> bData s1 = n1
           \<and> lpcDecStateDataDecode s1 n2 = Some (s2, [])
           \<and> phase_history s2 = phase_history s @ [LPCDECSTATE_TAR]
           \<and> iDataCycle s2 = 2 \<and> bData s2 = n1 OR push_bit 4 n2"
proof -
  from inv ph z have b: "bData s = 0" by (simp add: decoder_inv_def)
  from DataDecode_step [OF inv ph, of n1] z b obtain s1 where
    s1: "lpcDecStateDataDecode s n1 = Some (s1, [])" "bData s1 = n1" "iDataCycle s1 = 1"
      "phase_history s1 = phase_history s"
    by auto
  from DataDecode_inv [OF inv ph, of n1] s1(1) have inv1: "decoder_inv s1" by auto
  from s1(4) ph have ph1: "current_phase s1 = LPCDECSTATE_DATA"
    by (simp add: current_phase_last)
  from DataDecode_step [OF inv1 ph1, of n2] s1(2,3,4) obtain s2 where
    "lpcDecStateDataDecode s1 n2 = Some (s2, [])" "bData s2 = n1 OR push_bit 4 n2"
    "iDataCycle s2 = 2" "phase_history s2 = phase_history s @ [LPCDECSTATE_TAR]"
    by auto
  with s1 show ?thesis by blast
qed

section \<open>The claims\<close>

text \<open>
  Claim C1. When a phase has consumed its nibbles, \<^verbatim>\<open>lpcDecStateSampleAdvance\<close> follows
  the table. From ADDR a write goes to DATA and a read to TAR; from DATA both go to TAR; a
  TAR whose predecessor in the chain is DATA (write) or ADDR (read) goes to SYNC; a TAR with
  any other predecessor prints the cycle, not marked aborted, and resets to the state waiting
  for LFRAME#; from SYNC a write goes to TAR and a read to DATA. Every push of DATA or TAR
  sets its counter to 2. A turn-around of count 2 takes two nibbles, whatever they are: the
  first only lowers the counter, the second advances. SYNC advances on the nibble 0 and
  leaves the decoder as it is on every other nibble. The turn-around and SYNC decoders are
  what a falling edge with LFRAME# high runs in those phases. The bound on the index says
  that a push has room in \<^verbatim>\<open>aenmState\<close>.
\<close>

theorem phase_advancement_table:
  assumes "unat (idxState s) < 8"
  shows "(current_phase s = LPCDECSTATE_ADDR \<and> fWrite s \<noteq> 0 \<longrightarrow>
            (\<exists>s'. lpcDecStateSampleAdvance s = Some (s', [])
                 \<and> phase_history s' = phase_history s @ [LPCDECSTATE_DATA]
                 \<and> cDataCycles s' = 2))
       \<and> (current_phase s = LPCDECSTATE_ADDR \<and> fWrite s = 0 \<longrightarrow>
            (\<exists>s'. lpcDecStateSampleAdvance s = Some (s', [])
                 \<and> phase_history s' = phase_history s @ [LPCDECSTATE_TAR]
                 \<and> cTarCycles s' = 2))
       \<and> (current_phase s = LPCDECSTATE_DATA \<longrightarrow>
            (\<exists>s'. lpcDecStateSampleAdvance s = Some (s', [])
                 \<and> phase_history s' = phase_history s @ [LPCDECSTATE_TAR]
                 \<and> cTarCycles s' = 2))
       \<and> (current_phase s = LPCDECSTATE_TAR \<and> idxState s \<noteq> 0
            \<and> previous_phase s = (if fWrite s \<noteq> 0 then LPCDECSTATE_DATA else LPCDECSTATE_ADDR)
           \<longrightarrow> (\<exists>s'. lpcDecStateSampleAdvance s = Some (s', [])
                     \<and> phase_history s' = phase_history s @ [LPCDECSTATE_SYNC]))
       \<and> (current_phase s = LPCDECSTATE_TAR \<and> idxState s \<noteq> 0
            \<and> previous_phase s \<noteq> (if fWrite s \<noteq> 0 then LPCDECSTATE_DATA else LPCDECSTATE_ADDR)
           \<longrightarrow> lpcDecStateSampleAdvance s = Some (lpcDecStateReset s, lpcDecStateDump s 0)
               \<and> phase_history (lpcDecStateReset s) = [LPCDECSTATE_LFRAME_WAIT_ASSERTED]
               \<and> [e \<leftarrow> lpcDecStateDump s 0. e \<noteq> Wait_What]
                   = [Decoded_Cycle
                        \<lparr>cl_seq = uSeqNoCycle s, cl_typ = bTyp s, cl_write = (fWrite s \<noteq> 0),
                         cl_addr = u32Addr s, cl_data = bData s, cl_chain = phase_history s,
                         cl_abort = False\<rparr>])
       \<and> (current_phase s = LPCDECSTATE_SYNC \<and> fWrite s \<noteq> 0 \<longrightarrow>
            (\<exists>s'. lpcDecStateSampleAdvance s = Some (s', [])
                 \<and> phase_history s' = phase_history s @ [LPCDECSTATE_TAR]
                 \<and> cTarCycles s' = 2))
       \<and> (current_phase s = LPCDECSTATE_SYNC \<and> fWrite s = 0 \<longrightarrow>
            (\<exists>s'. lpcDecStateSampleAdvance s = Some (s', [])
                 \<and> phase_history s' = phase_history s @ [LPCDECSTATE_DATA]
                 \<and> cDataCycles s' = 2))
       \<and> (cTarCycles s = 2 \<longrightarrow>
            lpcDecStateTarDecode s bLad = Some (s\<lparr>cTarCycles := 1\<rparr>, [])
            \<and> lpcDecStateTarDecode (s\<lparr>cTarCycles := 1\<rparr>) bLad'
                = lpcDecStateSampleAdvance (s\<lparr>cTarCycles := 0\<rparr>))
       \<and> lpcDecStateSyncDecode s 0 = lpcDecStateSampleAdvance s
       \<and> (bLad \<noteq> 0 \<longrightarrow> lpcDecStateSyncDecode s bLad = Some (s, []))
       \<and> (frame_high_edge s bSample bLad \<and> current_phase s = LPCDECSTATE_TAR \<longrightarrow>
            lpcDecStateSampleProcess s uSeqNo bSample = sample_done (lpcDecStateTarDecode s bLad))
       \<and> (frame_high_edge s bSample bLad \<and> current_phase s = LPCDECSTATE_SYNC \<longrightarrow>
            lpcDecStateSampleProcess s uSeqNo bSample
              = sample_done (lpcDecStateSyncDecode s bLad))"
proof -
  from assms have i: "unat (idxState s) < 9" by simp
  note ap = advance_push [OF assms]
  note ph = phase_history_def unat_idx_Suc [OF assms]
  have 1: "\<exists>s'. lpcDecStateSampleAdvance s = Some (s', [])
                 \<and> phase_history s' = phase_history s @ [LPCDECSTATE_DATA]
                 \<and> cDataCycles s' = 2"
    if "current_phase s = LPCDECSTATE_ADDR \<and> fWrite s \<noteq> 0"
    using that ap(1) by (simp add: ph)
  have 2: "\<exists>s'. lpcDecStateSampleAdvance s = Some (s', [])
                 \<and> phase_history s' = phase_history s @ [LPCDECSTATE_TAR]
                 \<and> cTarCycles s' = 2"
    if "current_phase s = LPCDECSTATE_ADDR \<and> fWrite s = 0"
    using that ap(2) by (simp add: ph)
  have 3: "\<exists>s'. lpcDecStateSampleAdvance s = Some (s', [])
                 \<and> phase_history s' = phase_history s @ [LPCDECSTATE_TAR]
                 \<and> cTarCycles s' = 2"
    if "current_phase s = LPCDECSTATE_DATA"
    using that ap(3) by (simp add: ph)
  have 4: "\<exists>s'. lpcDecStateSampleAdvance s = Some (s', [])
                     \<and> phase_history s' = phase_history s @ [LPCDECSTATE_SYNC]"
    if "current_phase s = LPCDECSTATE_TAR \<and> idxState s \<noteq> 0
            \<and> previous_phase s = (if fWrite s \<noteq> 0 then LPCDECSTATE_DATA else LPCDECSTATE_ADDR)"
    using that advance_TAR(1) [OF assms] by (simp add: ph)
  have 5: "lpcDecStateSampleAdvance s = Some (lpcDecStateReset s, lpcDecStateDump s 0)
               \<and> phase_history (lpcDecStateReset s) = [LPCDECSTATE_LFRAME_WAIT_ASSERTED]
               \<and> [e \<leftarrow> lpcDecStateDump s 0. e \<noteq> Wait_What]
                   = [Decoded_Cycle
                        \<lparr>cl_seq = uSeqNoCycle s, cl_typ = bTyp s, cl_write = (fWrite s \<noteq> 0),
                         cl_addr = u32Addr s, cl_data = bData s, cl_chain = phase_history s,
                         cl_abort = False\<rparr>]"
    if "current_phase s = LPCDECSTATE_TAR \<and> idxState s \<noteq> 0
            \<and> previous_phase s \<noteq> (if fWrite s \<noteq> 0 then LPCDECSTATE_DATA else LPCDECSTATE_ADDR)"
    using that advance_TAR(2) [OF assms] Dump_cycle_line [of s 0]
    by (simp add: phase_history_reset)
  have 6: "\<exists>s'. lpcDecStateSampleAdvance s = Some (s', [])
                 \<and> phase_history s' = phase_history s @ [LPCDECSTATE_TAR]
                 \<and> cTarCycles s' = 2"
    if "current_phase s = LPCDECSTATE_SYNC \<and> fWrite s \<noteq> 0"
    using that ap(4) by (simp add: ph)
  have 7: "\<exists>s'. lpcDecStateSampleAdvance s = Some (s', [])
                 \<and> phase_history s' = phase_history s @ [LPCDECSTATE_DATA]
                 \<and> cDataCycles s' = 2"
    if "current_phase s = LPCDECSTATE_SYNC \<and> fWrite s = 0"
    using that ap(5) by (simp add: ph)
  have 8: "lpcDecStateTarDecode s bLad = Some (s\<lparr>cTarCycles := 1\<rparr>, [])
            \<and> lpcDecStateTarDecode (s\<lparr>cTarCycles := 1\<rparr>) bLad'
                = lpcDecStateSampleAdvance (s\<lparr>cTarCycles := 0\<rparr>)"
    if "cTarCycles s = 2"
    using that by (simp add: lpcDecStateTarDecode_def)
  have 9: "lpcDecStateSyncDecode s 0 = lpcDecStateSampleAdvance s"
    by (simp add: lpcDecStateSyncDecode_def)
  have 10: "lpcDecStateSyncDecode s bLad = Some (s, [])" if "bLad \<noteq> 0"
    using that by (simp add: lpcDecStateSyncDecode_def)
  have 11: "lpcDecStateSampleProcess s uSeqNo bSample = sample_done (lpcDecStateTarDecode s bLad)"
    if "frame_high_edge s bSample bLad \<and> current_phase s = LPCDECSTATE_TAR"
    using that process_frame_high [OF _ i, of bSample bLad uSeqNo] by simp
  have 12: "lpcDecStateSampleProcess s uSeqNo bSample
              = sample_done (lpcDecStateSyncDecode s bLad)"
    if "frame_high_edge s bSample bLad \<and> current_phase s = LPCDECSTATE_SYNC"
    using that process_frame_high [OF _ i, of bSample bLad uSeqNo] by simp
  show ?thesis
    apply (intro conjI impI)
    using 1 apply blast
    using 2 apply blast
    using 3 apply blast
    using 4 apply blast
    using 5 apply blast
    using 5 apply blast
    using 5 apply blast
    using 6 apply blast
    using 7 apply blast
    using 8 apply blast
    using 8 apply blast
    using 9 apply blast
    using 10 apply blast
    using 11 apply blast
    using 12 apply blast
    done
qed

text \<open>At the start of the last turn-around of the memory write: the predecessor is SYNC, so
  advancing completes the cycle; one nibble only lowers the counter.\<close>

theorem phase_advancement_table_witness:
  "unat (idxState last_turnaround) < 8
   \<and> current_phase last_turnaround = LPCDECSTATE_TAR
   \<and> idxState last_turnaround \<noteq> 0
   \<and> fWrite last_turnaround \<noteq> 0
   \<and> previous_phase last_turnaround = LPCDECSTATE_SYNC
   \<and> cTarCycles last_turnaround = 2
   \<and> lpcDecStateSampleAdvance last_turnaround
       = Some (lpcDecStateReset last_turnaround, lpcDecStateDump last_turnaround 0)
   \<and> lpcDecStateTarDecode last_turnaround 0xf = Some (last_turnaround\<lparr>cTarCycles := 1\<rparr>, [])
   \<and> lpcDecStateSyncDecode last_turnaround 0x5 = Some (last_turnaround, [])"
proof -
  have n: "(0x5::u8) \<noteq> 0" by simp
  from phase_advancement_table [OF last_turnaround_facts(1), where bLad = "0xf"]
    last_turnaround_facts
  have a: "lpcDecStateSampleAdvance last_turnaround
       = Some (lpcDecStateReset last_turnaround, lpcDecStateDump last_turnaround 0)"
    and b: "lpcDecStateTarDecode last_turnaround 0xf = Some (last_turnaround\<lparr>cTarCycles := 1\<rparr>, [])"
    by simp_all
  from phase_advancement_table [OF last_turnaround_facts(1), where bLad = "0x5"] n
  have c: "lpcDecStateSyncDecode last_turnaround 0x5 = Some (last_turnaround, [])"
    by blast
  from a b c last_turnaround_facts show ?thesis by simp
qed

text \<open>
  Claim C2. With the last START nibble 0x0, \<^verbatim>\<open>lpcDecStateStartDecode\<close> classifies the
  cycle from the nibble on LAD[3:0]: bits 3 and 2 are the type (0 I/O, 1 memory, 2 DMA,
  3 reserved), bit 1 is the direction (set for a write), the address is zeroed. For I/O the
  ADDR phase is entered with 4 address nibbles to come, for memory with 8. For DMA and
  reserved the type is reported, the decoder is back in the state waiting for LFRAME# with
  the chain holding nothing else, and no cycle line is printed. This is what
  \<^verbatim>\<open>lpcDecStateSampleProcess\<close> does on a falling edge with LFRAME# high in the START
  phase (with LFRAME# low the edge restarts the cycle instead, claim C4). The bound on the
  index says that the push has room in \<^verbatim>\<open>aenmState\<close>.
\<close>

theorem start_phase_classifies_cycle:
  assumes "bStartLast s = LPC_DEC_START_TARGET_CYCLE"
    and "unat (idxState s) < 8"
  shows "\<exists>s' out.
           lpcDecStateStartDecode s bLad = Some (s', out)
           \<and> (current_phase s = LPCDECSTATE_START \<and> frame_high_edge s bSample bLad \<longrightarrow>
                lpcDecStateSampleProcess s uSeqNo bSample = Some (0, s'\<lparr>fClkLast := 0\<rparr>, out))
           \<and> unat (bTyp s') = unat bLad div 4 mod 4
           \<and> (fWrite s' \<noteq> 0) = bit bLad 1
           \<and> u32Addr s' = 0
           \<and> (bTyp s' = LPC_DEC_CYC_TYPE_IO \<longrightarrow>
                out = [] \<and> phase_history s' = phase_history s @ [LPCDECSTATE_ADDR]
                \<and> cAddrCycles s' = 4)
           \<and> (bTyp s' = LPC_DEC_CYC_TYPE_MEM \<longrightarrow>
                out = [] \<and> phase_history s' = phase_history s @ [LPCDECSTATE_ADDR]
                \<and> cAddrCycles s' = 8)
           \<and> (bTyp s' = LPC_DEC_CYC_TYPE_DMA \<or> bTyp s' = LPC_DEC_CYC_TYPE_RSVD \<longrightarrow>
                out = [Illegal_Cycle_Type (bTyp s')]
                \<and> phase_history s' = [LPCDECSTATE_LFRAME_WAIT_ASSERTED]
                \<and> current_phase s' = LPCDECSTATE_LFRAME_WAIT_ASSERTED)
           \<and> (bTyp s' = LPC_DEC_CYC_TYPE_IO \<or> bTyp s' = LPC_DEC_CYC_TYPE_MEM
                \<or> bTyp s' = LPC_DEC_CYC_TYPE_DMA \<or> bTyp s' = LPC_DEC_CYC_TYPE_RSVD)"
proof -
  let ?t = "LPC_DEC_CYC_TYPE_GET bLad"
  from assms(2) have i: "unat (idxState s) < 9" by simp
  have p: "lpcDecStateSampleProcess s uSeqNo bSample
             = sample_done (lpcDecStateStartDecode s bLad)"
    if "current_phase s = LPCDECSTATE_START \<and> frame_high_edge s bSample bLad"
    using that process_frame_high [OF _ i, of bSample bLad uSeqNo] by simp
  have "unat ?t < 4" by (simp add: type_bits)
  then have "?t < 4" by (simp add: word_less_nat_alt)
  then have t: "?t = 0 \<or> ?t = 1 \<or> ?t = 2 \<or> ?t = 3" by unat_arith
  note sd = StartDecode_target [OF assms, of bLad]
  show ?thesis
  proof (cases "?t = LPC_DEC_CYC_TYPE_IO \<or> ?t = LPC_DEC_CYC_TYPE_MEM")
    case True
    with sd p show ?thesis
      by (auto simp: sample_done_def type_bits dir_bit phase_history_def unat_idx_Suc [OF assms(2)]
          ty_defs)
  next
    case False
    with sd p t show ?thesis
      by (auto simp: sample_done_def type_bits dir_bit phase_history_def current_phase_def
          lpcDecStateReset_def ty_defs)
  qed
qed

text \<open>The nibble 6 after a START nibble 0: a memory write.\<close>

theorem start_phase_classifies_cycle_witness:
  "current_phase start_seen = LPCDECSTATE_START
   \<and> bStartLast start_seen = LPC_DEC_START_TARGET_CYCLE
   \<and> unat (idxState start_seen) < 8
   \<and> frame_high_edge start_seen 0x1a 6
   \<and> (\<exists>s' out. lpcDecStateSampleProcess start_seen 3 0x1a = Some (0, s', out)
         \<and> unat (bTyp s') = 1 \<and> fWrite s' \<noteq> 0 \<and> u32Addr s' = 0)"
proof -
  from start_phase_classifies_cycle
    [OF start_seen_facts(2,3), where bLad = 6 and bSample = "0x1a" and uSeqNo = 3]
  obtain s' out where
    "current_phase start_seen = LPCDECSTATE_START \<and> frame_high_edge start_seen 0x1a 6 \<longrightarrow>
       lpcDecStateSampleProcess start_seen 3 0x1a = Some (0, s'\<lparr>fClkLast := 0\<rparr>, out)"
    "unat (bTyp s') = unat (6::u8) div 4 mod 4" "(fWrite s' \<noteq> 0) = bit (6::u8) 1" "u32Addr s' = 0"
    by blast
  with start_seen_facts(1,4)
  have "lpcDecStateSampleProcess start_seen 3 0x1a = Some (0, s'\<lparr>fClkLast := 0\<rparr>, out)
         \<and> unat (bTyp (s'\<lparr>fClkLast := 0\<rparr>)) = 1 \<and> fWrite (s'\<lparr>fClkLast := 0\<rparr>) \<noteq> 0
         \<and> u32Addr (s'\<lparr>fClkLast := 0\<rparr>) = 0"
    by (simp add: bit_numeral_simps)
  then have "\<exists>s' out. lpcDecStateSampleProcess start_seen 3 0x1a = Some (0, s', out)
         \<and> unat (bTyp s') = 1 \<and> fWrite s' \<noteq> 0 \<and> u32Addr s' = 0"
    by blast
  with start_seen_facts(1,2,3,4) show ?thesis by simp
qed

text \<open>
  Claim C3, as amended. A sample whose clock bit equals the stored level leaves the decoder
  exactly as it is and prints nothing. A sample whose clock bit rose from 0 to 1 decodes
  nothing and prints nothing, and changes one field: the stored clock level becomes 1. More
  generally every sample that is not a falling edge (stored level nonzero, clock bit 0) does
  nothing but store the clock bit. The hypothesis says that the clock bit can be extracted
  (the shift by the bit number is defined).
\<close>

theorem no_decoding_off_falling_edge:
  assumes "sample_flag bSample (u8BitLClk s) = Some fClk"
  shows "(fClk = fClkLast s \<longrightarrow> lpcDecStateSampleProcess s uSeqNo bSample = Some (0, s, []))
       \<and> (fClkLast s = 0 \<and> fClk = 1 \<longrightarrow>
            lpcDecStateSampleProcess s uSeqNo bSample = Some (0, s\<lparr>fClkLast := 1\<rparr>, []))
       \<and> (\<not> (fClkLast s \<noteq> 0 \<and> fClk = 0) \<longrightarrow>
            lpcDecStateSampleProcess s uSeqNo bSample = Some (0, s\<lparr>fClkLast := fClk\<rparr>, []))"
  using assms by (auto simp: lpcDecStateSampleProcess_def)

text \<open>A high sample at a high stored level, and the first high sample after initialisation.\<close>

theorem no_decoding_off_falling_edge_witness:
  "sample_flag 0x01 (u8BitLClk mid_address) = Some 1
   \<and> fClkLast mid_address = 1
   \<and> lpcDecStateSampleProcess mid_address 9 0x01 = Some (0, mid_address, [])
   \<and> sample_flag 0x01 (u8BitLClk main_init) = Some 1
   \<and> fClkLast main_init = 0
   \<and> lpcDecStateSampleProcess main_init 0 0x01 = Some (0, main_init\<lparr>fClkLast := 1\<rparr>, [])"
proof -
  have a: "sample_flag 0x01 (u8BitLClk mid_address) = Some 1" "fClkLast mid_address = 1"
    by (simp_all add: mid_address_def main_init_defs sample_flag_def shl_int_def)
  have b: "sample_flag 0x01 (u8BitLClk main_init) = Some 1" "fClkLast main_init = 0"
    by (simp_all add: main_init_defs sample_flag_def shl_int_def)
  from no_decoding_off_falling_edge [OF a(1), of 9] a(2)
  have c: "lpcDecStateSampleProcess mid_address 9 0x01 = Some (0, mid_address, [])" by simp
  from no_decoding_off_falling_edge [OF b(1), of 0] b(2)
  have d: "lpcDecStateSampleProcess main_init 0 0x01 = Some (0, main_init\<lparr>fClkLast := 1\<rparr>, [])"
    by simp
  from a b c d show ?thesis by simp
qed

text \<open>The claim as stated, that a rising edge leaves the decoder state unchanged, fails on the
  first high sample after initialisation: the stored clock level goes from 0 to 1.\<close>

theorem rising_edge_stores_clock_level_counterexample:
  "fClkLast main_init = 0
   \<and> sample_flag 0x01 (u8BitLClk main_init) = Some 1
   \<and> lpcDecStateSampleProcess main_init 0 0x01 = Some (0, main_init\<lparr>fClkLast := 1\<rparr>, [])
   \<and> main_init\<lparr>fClkLast := 1\<rparr> \<noteq> main_init"
proof -
  have a: "fClkLast main_init = 0" by (simp add: main_init_defs)
  have b: "sample_flag 0x01 (u8BitLClk main_init) = Some 1"
    by (simp add: main_init_defs sample_flag_def shl_int_def)
  from a b have c: "lpcDecStateSampleProcess main_init 0 0x01 = Some (0, main_init\<lparr>fClkLast := 1\<rparr>, [])"
    by (simp add: lpcDecStateSampleProcess_def)
  have d: "main_init\<lparr>fClkLast := 1\<rparr> \<noteq> main_init"
  proof
    assume "main_init\<lparr>fClkLast := 1\<rparr> = main_init"
    then have "fClkLast (main_init\<lparr>fClkLast := 1\<rparr>) = fClkLast main_init" by (rule arg_cong)
    with a show False by simp
  qed
  from a b c d show ?thesis by blast
qed

text \<open>
  Claim C4. On a falling edge with LFRAME# low, in a decoder whose index is inside the
  array: the output is the cycle line marked aborted, made of the sequence number, type,
  direction, address, data and chain the decoder held before, when the current phase is
  neither the wait for LFRAME# nor START, and nothing when it is one of these two; the
  nibble on LAD[3:0] becomes the last START nibble and the sequence number of the sample
  the sequence number of the cycle; the decoder is reset and START is pushed, so that the
  chain is the wait for LFRAME# followed by START and address, data and data index are 0.
\<close>

theorem frame_assertion_restarts_cycle:
  assumes "frame_low_edge s bSample bLad" and "unat (idxState s) < aenmState_capacity"
  shows "\<exists>s1.
           lpcDecStateSet (lpcDecStateReset (s\<lparr>bStartLast := bLad, uSeqNoCycle := uSeqNo\<rparr>))
             LPCDECSTATE_START = Some s1
           \<and> lpcDecStateSampleProcess s uSeqNo bSample
               = Some (0, s1\<lparr>fClkLast := 0\<rparr>,
                       if current_phase s \<noteq> LPCDECSTATE_LFRAME_WAIT_ASSERTED
                          \<and> current_phase s \<noteq> LPCDECSTATE_START
                       then lpcDecStateDump s 1 else [])
           \<and> [e \<leftarrow> lpcDecStateDump s 1. e \<noteq> Wait_What]
               = [Decoded_Cycle
                    \<lparr>cl_seq = uSeqNoCycle s, cl_typ = bTyp s, cl_write = (fWrite s \<noteq> 0),
                     cl_addr = u32Addr s, cl_data = bData s, cl_chain = phase_history s,
                     cl_abort = True\<rparr>]
           \<and> bStartLast s1 = bLad \<and> uSeqNoCycle s1 = uSeqNo
           \<and> phase_history (s1\<lparr>fClkLast := 0\<rparr>)
               = [LPCDECSTATE_LFRAME_WAIT_ASSERTED, LPCDECSTATE_START]
           \<and> current_phase (s1\<lparr>fClkLast := 0\<rparr>) = LPCDECSTATE_START
           \<and> u32Addr s1 = 0 \<and> bData s1 = 0 \<and> iDataCycle s1 = 0"
proof -
  from assms(2) have i: "unat (idxState s) < 9" by (simp add: aenmState_capacity_def)
  from frame_low_result [OF assms(1) i, of uSeqNo] Dump_cycle_line [of s 1]
  show ?thesis by auto
qed

text \<open>LFRAME# falls after two address nibbles of the memory write, with 0xf on LAD[3:0].\<close>

theorem frame_assertion_restarts_cycle_witness:
  "frame_low_edge mid_address 0x3c 0xf
   \<and> unat (idxState mid_address) < aenmState_capacity
   \<and> current_phase mid_address = LPCDECSTATE_ADDR
   \<and> (\<exists>s'. lpcDecStateSampleProcess mid_address 9 0x3c
              = Some (0, s',
                  [Decoded_Cycle
                     \<lparr>cl_seq = 1, cl_typ = 1, cl_write = True, cl_addr = 0x12000000,
                      cl_data = 0,
                      cl_chain = [LPCDECSTATE_LFRAME_WAIT_ASSERTED, LPCDECSTATE_START,
                                  LPCDECSTATE_ADDR],
                      cl_abort = True\<rparr>])
            \<and> phase_history s' = [LPCDECSTATE_LFRAME_WAIT_ASSERTED, LPCDECSTATE_START]
            \<and> bStartLast s' = 0xf \<and> uSeqNoCycle s' = 9)"
proof -
  from frame_assertion_restarts_cycle [OF mid_address_facts(3) mid_address_facts(1), of 9]
  obtain s1 where
    "lpcDecStateSampleProcess mid_address 9 0x3c
       = Some (0, s1\<lparr>fClkLast := 0\<rparr>,
               if current_phase mid_address \<noteq> LPCDECSTATE_LFRAME_WAIT_ASSERTED
                  \<and> current_phase mid_address \<noteq> LPCDECSTATE_START
               then lpcDecStateDump mid_address 1 else [])"
    "bStartLast s1 = 0xf" "uSeqNoCycle s1 = 9"
    "phase_history (s1\<lparr>fClkLast := 0\<rparr>)
       = [LPCDECSTATE_LFRAME_WAIT_ASSERTED, LPCDECSTATE_START]"
    by blast
  then have "lpcDecStateSampleProcess mid_address 9 0x3c
              = Some (0, s1\<lparr>fClkLast := 0\<rparr>,
                  [Decoded_Cycle
                     \<lparr>cl_seq = 1, cl_typ = 1, cl_write = True, cl_addr = 0x12000000,
                      cl_data = 0,
                      cl_chain = [LPCDECSTATE_LFRAME_WAIT_ASSERTED, LPCDECSTATE_START,
                                  LPCDECSTATE_ADDR],
                      cl_abort = True\<rparr>])
            \<and> phase_history (s1\<lparr>fClkLast := 0\<rparr>)
                = [LPCDECSTATE_LFRAME_WAIT_ASSERTED, LPCDECSTATE_START]
            \<and> bStartLast (s1\<lparr>fClkLast := 0\<rparr>) = 0xf \<and> uSeqNoCycle (s1\<lparr>fClkLast := 0\<rparr>) = 9"
    by (simp add: mid_address_facts)
  then have "\<exists>s'. lpcDecStateSampleProcess mid_address 9 0x3c
              = Some (0, s',
                  [Decoded_Cycle
                     \<lparr>cl_seq = 1, cl_typ = 1, cl_write = True, cl_addr = 0x12000000,
                      cl_data = 0,
                      cl_chain = [LPCDECSTATE_LFRAME_WAIT_ASSERTED, LPCDECSTATE_START,
                                  LPCDECSTATE_ADDR],
                      cl_abort = True\<rparr>])
            \<and> phase_history s' = [LPCDECSTATE_LFRAME_WAIT_ASSERTED, LPCDECSTATE_START]
            \<and> bStartLast s' = 0xf \<and> uSeqNoCycle s' = 9"
    by (rule exI)
  with mid_address_facts(1,2,3) show ?thesis by simp
qed

text \<open>
  Claim C5. In a decoder reached from \<^verbatim>\<open>lpcDecStateInit\<close> by any samples (bit numbers
  below 8) that is in the ADDR phase, \<^verbatim>\<open>lpcDecStateAddrDecode\<close>, which is what a falling
  edge with LFRAME# high runs, lowers the counter of address nibbles by one and ORs the nibble
  into the address, shifted left by four times the lowered counter, a shift of less than 32
  bits; the chain is extended (by DATA for a write, by TAR for a read) exactly when the
  counter has reached 0. So the nibbles arrive most significant first: in the memory write
  the nibbles 1, 2, 3, 4, 0, 0, 0, 0 build 0x12340000, step by step.
\<close>

theorem address_nibbles_most_significant_first:
  assumes "lpcDecFeed (lpcDecStateInit s0 c f l0 l1 l2 l3) samples = Some (s, out0)"
    and "c < 8" "f < 8" "l0 < 8" "l1 < 8" "l2 < 8" "l3 < 8"
    and "current_phase s = LPCDECSTATE_ADDR"
  shows "(\<exists>s'. lpcDecStateAddrDecode s bLad = Some (s', [])
           \<and> (frame_high_edge s bSample bLad \<longrightarrow>
                lpcDecStateSampleProcess s uSeqNo bSample = Some (0, s'\<lparr>fClkLast := 0\<rparr>, []))
           \<and> cAddrCycles s' = cAddrCycles s - 1
           \<and> unat (cAddrCycles s') < 8
           \<and> u32Addr s' = u32Addr s OR push_bit (unat (cAddrCycles s') * 4) (ucast bLad)
           \<and> (cAddrCycles s' \<noteq> 0 \<longrightarrow> phase_history s' = phase_history s)
           \<and> (cAddrCycles s' = 0 \<longrightarrow>
                phase_history s'
                  = phase_history s
                    @ [if fWrite s \<noteq> 0 then LPCDECSTATE_DATA else LPCDECSTATE_TAR]))
       \<and> map (\<lambda>n. map_option (u32Addr \<circ> fst) (lpcDecFeed main_init (take n mem_write_capture)))
           [4, 6, 8, 10, 12, 14, 16, 18, 20]
         = [Some 0, Some 0x10000000, Some 0x12000000, Some 0x12300000, Some 0x12340000,
            Some 0x12340000, Some 0x12340000, Some 0x12340000, Some 0x12340000]"
proof -
  note inv = reached_inv [OF assms(1-7)]
  from inv(1) have i: "unat (idxState s) < 9"
    using decoder_inv_idx [of s] by simp
  have p: "lpcDecStateSampleProcess s uSeqNo bSample
             = sample_done (lpcDecStateAddrDecode s bLad)"
    if "frame_high_edge s bSample bLad"
    using process_frame_high [OF that i, of uSeqNo] assms(8) by simp
  from AddrDecode_step [OF inv(1) assms(8), of bLad] p
  have a: "\<exists>s'. lpcDecStateAddrDecode s bLad = Some (s', [])
           \<and> (frame_high_edge s bSample bLad \<longrightarrow>
                lpcDecStateSampleProcess s uSeqNo bSample = Some (0, s'\<lparr>fClkLast := 0\<rparr>, []))
           \<and> cAddrCycles s' = cAddrCycles s - 1
           \<and> unat (cAddrCycles s') < 8
           \<and> u32Addr s' = u32Addr s OR push_bit (unat (cAddrCycles s') * 4) (ucast bLad)
           \<and> (cAddrCycles s' \<noteq> 0 \<longrightarrow> phase_history s' = phase_history s)
           \<and> (cAddrCycles s' = 0 \<longrightarrow>
                phase_history s'
                  = phase_history s
                    @ [if fWrite s \<noteq> 0 then LPCDECSTATE_DATA else LPCDECSTATE_TAR])"
    by (auto simp: sample_done_def)
  have b: "map (\<lambda>n. map_option (u32Addr \<circ> fst) (lpcDecFeed main_init (take n mem_write_capture)))
           [4, 6, 8, 10, 12, 14, 16, 18, 20]
         = [Some 0, Some 0x10000000, Some 0x12000000, Some 0x12300000, Some 0x12340000,
            Some 0x12340000, Some 0x12340000, Some 0x12340000, Some 0x12340000]"
    by code_simp
  from a b show ?thesis by (rule conjI)
qed

text \<open>The third address nibble, 3, of the memory write.\<close>

theorem address_nibbles_most_significant_first_witness:
  "lpcDecFeed (lpcDecStateInit uninitialised 0 1 5 4 3 2) (take 9 mem_write_capture)
     = Some (mid_address, [])
   \<and> current_phase mid_address = LPCDECSTATE_ADDR
   \<and> frame_high_edge mid_address 0x32 3
   \<and> cAddrCycles mid_address = 6
   \<and> u32Addr mid_address = 0x12000000
   \<and> (\<exists>s'. lpcDecStateSampleProcess mid_address 9 0x32 = Some (0, s', [])
          \<and> cAddrCycles s' = 5 \<and> u32Addr s' = 0x12300000)"
proof -
  have r: "lpcDecFeed (lpcDecStateInit uninitialised 0 1 5 4 3 2) (take 9 mem_write_capture)
     = Some (mid_address, [])"
    using mid_address_reached by (simp add: main_init_def)
  have v: "cAddrCycles mid_address = 6" "u32Addr mid_address = 0x12000000"
    by (simp_all add: mid_address_def)
  have "\<exists>s'. lpcDecStateAddrDecode mid_address 3 = Some (s', [])
           \<and> (frame_high_edge mid_address 0x32 3 \<longrightarrow>
                lpcDecStateSampleProcess mid_address 9 0x32 = Some (0, s'\<lparr>fClkLast := 0\<rparr>, []))
           \<and> cAddrCycles s' = cAddrCycles mid_address - 1
           \<and> unat (cAddrCycles s') < 8
           \<and> u32Addr s'
               = u32Addr mid_address OR push_bit (unat (cAddrCycles s') * 4) (ucast (3::u8))
           \<and> (cAddrCycles s' \<noteq> 0 \<longrightarrow> phase_history s' = phase_history mid_address)
           \<and> (cAddrCycles s' = 0 \<longrightarrow>
                phase_history s'
                  = phase_history mid_address
                    @ [if fWrite mid_address \<noteq> 0 then LPCDECSTATE_DATA else LPCDECSTATE_TAR])"
    by (rule conjunct1 [OF address_nibbles_most_significant_first
          [OF r _ _ _ _ _ _ mid_address_facts(2)]]) simp_all
  with mid_address_facts(4) obtain s' where
    "lpcDecStateSampleProcess mid_address 9 0x32 = Some (0, s'\<lparr>fClkLast := 0\<rparr>, [])"
    "cAddrCycles s' = cAddrCycles mid_address - 1"
    "u32Addr s' = u32Addr mid_address OR push_bit (unat (cAddrCycles s') * 4) (ucast (3::u8))"
    by blast
  with v have "lpcDecStateSampleProcess mid_address 9 0x32 = Some (0, s'\<lparr>fClkLast := 0\<rparr>, [])
          \<and> cAddrCycles (s'\<lparr>fClkLast := 0\<rparr>) = 5 \<and> u32Addr (s'\<lparr>fClkLast := 0\<rparr>) = 0x12300000"
    by simp
  then have "\<exists>s'. lpcDecStateSampleProcess mid_address 9 0x32 = Some (0, s', [])
          \<and> cAddrCycles s' = 5 \<and> u32Addr s' = 0x12300000"
    by blast
  with r v mid_address_facts(2,4) show ?thesis by simp
qed

text \<open>
  Claim C6. In a decoder reached from \<^verbatim>\<open>lpcDecStateInit\<close> by any samples (bit numbers
  below 8): before a DATA phase the data index and the data byte are 0; in the DATA phase
  the number of data nibbles is 2 and the index is below 2, and \<^verbatim>\<open>lpcDecStateDataDecode\<close>,
  which is what a falling edge with LFRAME# high runs (with LFRAME# low the edge aborts the
  cycle instead, claim C4), ORs the nibble into the data byte, shifted left by four times
  the index, adds one to the index, and extends the chain by TAR (with counter 2) exactly
  when the index has become 2. Whenever a sample changes the chain and leaves the decoder in
  the DATA phase, that is, whenever DATA is entered, the index and the data byte are 0 and the
  number of data nibbles is 2. From there the first nibble leaves the decoder in DATA with
  the nibble as the data byte, and the second extends the chain by TAR with the data byte
  the first nibble ORed with the second shifted left by 4. So every data phase takes exactly
  two nibbles, the first in the low half: in the memory write the nibbles B, A build 0xAB,
  in the I/O read the nibbles 2, 4 build 0x42.
\<close>

theorem data_nibbles_least_significant_first:
  assumes "lpcDecFeed (lpcDecStateInit s0 c f l0 l1 l2 l3) samples = Some (s, out0)"
    and "c < 8" "f < 8" "l0 < 8" "l1 < 8" "l2 < 8" "l3 < 8"
  shows "(LPCDECSTATE_DATA \<notin> set (phase_history s) \<longrightarrow> iDataCycle s = 0 \<and> bData s = 0)
       \<and> (current_phase s = LPCDECSTATE_DATA \<longrightarrow>
            cDataCycles s = 2 \<and> iDataCycle s < 2
            \<and> (\<exists>s'. lpcDecStateDataDecode s bLad = Some (s', [])
                  \<and> (frame_high_edge s bSample bLad \<longrightarrow>
                       lpcDecStateSampleProcess s uSeqNo bSample
                         = Some (0, s'\<lparr>fClkLast := 0\<rparr>, []))
                  \<and> bData s' = bData s OR push_bit (unat (iDataCycle s) * 4) bLad
                  \<and> iDataCycle s' = iDataCycle s + 1
                  \<and> (iDataCycle s' = 2 \<longrightarrow>
                       phase_history s' = phase_history s @ [LPCDECSTATE_TAR]
                       \<and> cTarCycles s' = 2)
                  \<and> (iDataCycle s' \<noteq> 2 \<longrightarrow> phase_history s' = phase_history s)))
       \<and> map (\<lambda>n. map_option ((\<lambda>d. (current_phase d, iDataCycle d, bData d)) \<circ> fst)
                   (lpcDecFeed main_init (take n mem_write_capture)))
           [20, 22, 24]
         = [Some (LPCDECSTATE_DATA, 0, 0), Some (LPCDECSTATE_DATA, 1, 0x0b),
            Some (LPCDECSTATE_TAR, 2, 0xab)]
       \<and> (lpcDecStateSampleProcess s uSeqNo' bSample' = Some (rc, t, out)
            \<and> current_phase t = LPCDECSTATE_DATA \<and> phase_history t \<noteq> phase_history s
           \<longrightarrow> iDataCycle t = 0 \<and> bData t = 0 \<and> cDataCycles t = 2)
       \<and> (current_phase s = LPCDECSTATE_DATA \<and> iDataCycle s = 0 \<longrightarrow>
            (\<exists>s1 s2. lpcDecStateDataDecode s bLad1 = Some (s1, [])
                 \<and> phase_history s1 = phase_history s \<and> iDataCycle s1 = 1 \<and> bData s1 = bLad1
                 \<and> lpcDecStateDataDecode s1 bLad2 = Some (s2, [])
                 \<and> phase_history s2 = phase_history s @ [LPCDECSTATE_TAR]
                 \<and> iDataCycle s2 = 2 \<and> bData s2 = bLad1 OR push_bit 4 bLad2))
       \<and> map (\<lambda>n. map_option ((\<lambda>d. (current_phase d, iDataCycle d, bData d)) \<circ> fst)
                   (lpcDecFeed main_init (take n io_read_capture)))
           [18, 20, 22]
         = [Some (LPCDECSTATE_DATA, 0, 0), Some (LPCDECSTATE_DATA, 1, 0x02),
            Some (LPCDECSTATE_TAR, 2, 0x42)]"
proof -
  note inv = reached_inv [OF assms]
  from inv(1) have i: "unat (idxState s) < 9"
    using decoder_inv_idx [of s] by simp
  from inv(1)
  have 1: "LPCDECSTATE_DATA \<notin> set (phase_history s) \<longrightarrow> iDataCycle s = 0 \<and> bData s = 0"
    by (simp add: decoder_inv_def)
  have 2: "cDataCycles s = 2 \<and> iDataCycle s < 2
            \<and> (\<exists>s'. lpcDecStateDataDecode s bLad = Some (s', [])
                  \<and> (frame_high_edge s bSample bLad \<longrightarrow>
                       lpcDecStateSampleProcess s uSeqNo bSample
                         = Some (0, s'\<lparr>fClkLast := 0\<rparr>, []))
                  \<and> bData s' = bData s OR push_bit (unat (iDataCycle s) * 4) bLad
                  \<and> iDataCycle s' = iDataCycle s + 1
                  \<and> (iDataCycle s' = 2 \<longrightarrow>
                       phase_history s' = phase_history s @ [LPCDECSTATE_TAR]
                       \<and> cTarCycles s' = 2)
                  \<and> (iDataCycle s' \<noteq> 2 \<longrightarrow> phase_history s' = phase_history s))"
    if ph: "current_phase s = LPCDECSTATE_DATA"
  proof -
    note st = DataDecode_step [OF inv(1) ph, of bLad]
    have "lpcDecStateSampleProcess s uSeqNo bSample
             = sample_done (lpcDecStateDataDecode s bLad)"
      if "frame_high_edge s bSample bLad"
      using process_frame_high [OF that i, of uSeqNo] ph by simp
    with st show ?thesis by (auto simp: sample_done_def)
  qed
  have 3: "map (\<lambda>n. map_option ((\<lambda>d. (current_phase d, iDataCycle d, bData d)) \<circ> fst)
                   (lpcDecFeed main_init (take n mem_write_capture)))
           [20, 22, 24]
         = [Some (LPCDECSTATE_DATA, 0, 0), Some (LPCDECSTATE_DATA, 1, 0x0b),
            Some (LPCDECSTATE_TAR, 2, 0xab)]"
    by code_simp
  have 4: "iDataCycle t = 0 \<and> bData t = 0 \<and> cDataCycles t = 2"
    if "lpcDecStateSampleProcess s uSeqNo' bSample' = Some (rc, t, out)
            \<and> current_phase t = LPCDECSTATE_DATA \<and> phase_history t \<noteq> phase_history s"
    using that process_entry [OF inv(1), of uSeqNo' bSample' rc t out] by blast
  have 5: "\<exists>s1 s2. lpcDecStateDataDecode s bLad1 = Some (s1, [])
                 \<and> phase_history s1 = phase_history s \<and> iDataCycle s1 = 1 \<and> bData s1 = bLad1
                 \<and> lpcDecStateDataDecode s1 bLad2 = Some (s2, [])
                 \<and> phase_history s2 = phase_history s @ [LPCDECSTATE_TAR]
                 \<and> iDataCycle s2 = 2 \<and> bData s2 = bLad1 OR push_bit 4 bLad2"
    if "current_phase s = LPCDECSTATE_DATA \<and> iDataCycle s = 0"
    using that DataDecode_two_nibbles [OF inv(1), of bLad1 bLad2] by blast
  have 6: "map (\<lambda>n. map_option ((\<lambda>d. (current_phase d, iDataCycle d, bData d)) \<circ> fst)
                   (lpcDecFeed main_init (take n io_read_capture)))
           [18, 20, 22]
         = [Some (LPCDECSTATE_DATA, 0, 0), Some (LPCDECSTATE_DATA, 1, 0x02),
            Some (LPCDECSTATE_TAR, 2, 0x42)]"
    by code_simp
  show ?thesis
    apply (intro conjI impI)
    using 1 apply blast
    using 1 apply blast
    using 2 apply blast
    using 2 apply blast
    using 2 apply blast
    using 3 apply blast
    using 4 apply blast
    using 4 apply blast
    using 4 apply blast
    using 5 apply blast
    using 6 apply blast
    done
qed

text \<open>The first data nibble, 0xb, of the memory write, and its last address nibble, which
  enters the DATA phase.\<close>

theorem data_nibbles_least_significant_first_witness:
  "lpcDecFeed (lpcDecStateInit uninitialised 0 1 5 4 3 2) (take 21 mem_write_capture)
     = Some (data_entry, [])
   \<and> current_phase data_entry = LPCDECSTATE_DATA
   \<and> frame_high_edge data_entry 0x36 0xb
   \<and> iDataCycle data_entry = 0 \<and> bData data_entry = 0
   \<and> (\<exists>s'. lpcDecStateSampleProcess data_entry 21 0x36 = Some (0, s', [])
          \<and> iDataCycle s' = 1 \<and> bData s' = 0x0b
          \<and> phase_history s' = phase_history data_entry)
   \<and> lpcDecFeed (lpcDecStateInit uninitialised 0 1 5 4 3 2) (take 19 mem_write_capture)
       = Some (last_address, [])
   \<and> lpcDecStateSampleProcess last_address 19 0x02 = Some (0, data_entry\<lparr>fClkLast := 0\<rparr>, [])
   \<and> current_phase (data_entry\<lparr>fClkLast := 0\<rparr>) = LPCDECSTATE_DATA
   \<and> phase_history (data_entry\<lparr>fClkLast := 0\<rparr>) \<noteq> phase_history last_address
   \<and> iDataCycle (data_entry\<lparr>fClkLast := 0\<rparr>) = 0
   \<and> bData (data_entry\<lparr>fClkLast := 0\<rparr>) = 0
   \<and> cDataCycles (data_entry\<lparr>fClkLast := 0\<rparr>) = 2"
proof -
  have r: "lpcDecFeed (lpcDecStateInit uninitialised 0 1 5 4 3 2) (take 21 mem_write_capture)
     = Some (data_entry, [])"
    using data_entry_reached by (simp add: main_init_def)
  have "current_phase data_entry = LPCDECSTATE_DATA \<longrightarrow>
            cDataCycles data_entry = 2 \<and> iDataCycle data_entry < 2
            \<and> (\<exists>s'. lpcDecStateDataDecode data_entry 0xb = Some (s', [])
                  \<and> (frame_high_edge data_entry 0x36 0xb \<longrightarrow>
                       lpcDecStateSampleProcess data_entry 21 0x36
                         = Some (0, s'\<lparr>fClkLast := 0\<rparr>, []))
                  \<and> bData s' = bData data_entry
                               OR push_bit (unat (iDataCycle data_entry) * 4) 0xb
                  \<and> iDataCycle s' = iDataCycle data_entry + 1
                  \<and> (iDataCycle s' = 2 \<longrightarrow>
                       phase_history s' = phase_history data_entry @ [LPCDECSTATE_TAR]
                       \<and> cTarCycles s' = 2)
                  \<and> (iDataCycle s' \<noteq> 2 \<longrightarrow> phase_history s' = phase_history data_entry))"
    by (rule conjunct1 [OF conjunct2 [OF data_nibbles_least_significant_first [OF r]]]) simp_all
  with data_entry_facts(1,2) obtain s' where
    "lpcDecStateSampleProcess data_entry 21 0x36 = Some (0, s'\<lparr>fClkLast := 0\<rparr>, [])"
    "bData s' = bData data_entry OR push_bit (unat (iDataCycle data_entry) * 4) 0xb"
    "iDataCycle s' = iDataCycle data_entry + 1"
    "iDataCycle s' \<noteq> 2 \<longrightarrow> phase_history s' = phase_history data_entry"
    by blast
  with data_entry_facts(3,4)
  have "lpcDecStateSampleProcess data_entry 21 0x36 = Some (0, s'\<lparr>fClkLast := 0\<rparr>, [])
          \<and> iDataCycle (s'\<lparr>fClkLast := 0\<rparr>) = 1 \<and> bData (s'\<lparr>fClkLast := 0\<rparr>) = 0x0b
          \<and> phase_history (s'\<lparr>fClkLast := 0\<rparr>) = phase_history data_entry"
    by simp
  then have a: "\<exists>s'. lpcDecStateSampleProcess data_entry 21 0x36 = Some (0, s', [])
          \<and> iDataCycle s' = 1 \<and> bData s' = 0x0b
          \<and> phase_history s' = phase_history data_entry"
    by blast
  have r2: "lpcDecFeed (lpcDecStateInit uninitialised 0 1 5 4 3 2) (take 19 mem_write_capture)
       = Some (last_address, [])"
    using last_address_reached by (simp add: main_init_def)
  have ne: "phase_history (data_entry\<lparr>fClkLast := 0\<rparr>) \<noteq> phase_history last_address"
    by (simp add: last_address_facts)
  have cu: "current_phase (data_entry\<lparr>fClkLast := 0\<rparr>) = LPCDECSTATE_DATA"
    by (simp add: data_entry_facts)
  have "lpcDecStateSampleProcess last_address 19 0x02 = Some (0, data_entry\<lparr>fClkLast := 0\<rparr>, [])
            \<and> current_phase (data_entry\<lparr>fClkLast := 0\<rparr>) = LPCDECSTATE_DATA
            \<and> phase_history (data_entry\<lparr>fClkLast := 0\<rparr>) \<noteq> phase_history last_address
           \<longrightarrow> iDataCycle (data_entry\<lparr>fClkLast := 0\<rparr>) = 0
               \<and> bData (data_entry\<lparr>fClkLast := 0\<rparr>) = 0
               \<and> cDataCycles (data_entry\<lparr>fClkLast := 0\<rparr>) = 2"
    by (rule conjunct1 [OF conjunct2 [OF conjunct2 [OF conjunct2
          [OF data_nibbles_least_significant_first [OF r2]]]]]) simp_all
  with last_address_step cu ne
  have b: "iDataCycle (data_entry\<lparr>fClkLast := 0\<rparr>) = 0
               \<and> bData (data_entry\<lparr>fClkLast := 0\<rparr>) = 0
               \<and> cDataCycles (data_entry\<lparr>fClkLast := 0\<rparr>) = 2"
    by blast
  from r data_entry_facts a r2 last_address_step cu ne b
  show ?thesis by blast
qed

text \<open>
  Claim C7. From \<^verbatim>\<open>lpcDecStateInit\<close> with bit numbers below 8, whatever the structure held
  before and whatever the samples, the loop of \<^verbatim>\<open>main\<close> runs without a fault (no index
  outside \<^verbatim>\<open>aenmState[9]\<close> in any push or read on the way), the chain it ends with has
  at most 7 states, and a further push from there still writes inside the array.
\<close>

theorem phase_history_within_capacity:
  assumes "c < 8" "f < 8" "l0 < 8" "l1 < 8" "l2 < 8" "l3 < 8"
  shows "\<exists>s out. lpcDecFeed (lpcDecStateInit s0 c f l0 l1 l2 l3) samples = Some (s, out)
           \<and> length (phase_history s) \<le> 7
           \<and> length (phase_history s) \<le> aenmState_capacity
           \<and> (\<forall>enmState. \<exists>s'. lpcDecStateSet s enmState = Some s'
                  \<and> unat (idxState s') < aenmState_capacity)"
proof -
  have "pins_in_byte (lpcDecStateInit s0 c f l0 l1 l2 l3)"
    using assms by (simp add: init_pins)
  from feed_inv [OF init_inv this, of samples] obtain s out
    where r: "lpcDecFeed (lpcDecStateInit s0 c f l0 l1 l2 l3) samples = Some (s, out)"
      and inv: "decoder_inv s" by blast
  from decoder_inv_idx [OF inv] have i: "unat (idxState s) \<le> 6" .
  then have l: "length (phase_history s) \<le> 7" by (simp add: phase_history_def)
  from i have j: "unat (idxState s) < 8" by simp
  have "\<exists>s'. lpcDecStateSet s enmState = Some s' \<and> unat (idxState s') < aenmState_capacity"
    for enmState
    using j i by (simp add: lpcDecStateSet_Some unat_idx_Suc aenmState_capacity_def)
  with r l show ?thesis by (auto simp: aenmState_capacity_def)
qed

text \<open>The wiring of \<^verbatim>\<open>main\<close> and the memory write.\<close>

theorem phase_history_within_capacity_witness:
  "(0::u8) < 8 \<and> (1::u8) < 8 \<and> (5::u8) < 8 \<and> (4::u8) < 8 \<and> (3::u8) < 8 \<and> (2::u8) < 8
   \<and> (\<exists>s out. lpcDecFeed (lpcDecStateInit uninitialised 0 1 5 4 3 2) mem_write_capture
                 = Some (s, out)
           \<and> length (phase_history s) \<le> 7)"
proof -
  have p: "(0::u8) < 8" "(1::u8) < 8" "(5::u8) < 8" "(4::u8) < 8" "(3::u8) < 8" "(2::u8) < 8"
    by simp_all
  from phase_history_within_capacity [OF p, of uninitialised mem_write_capture]
  have "\<exists>s out. lpcDecFeed (lpcDecStateInit uninitialised 0 1 5 4 3 2) mem_write_capture
                 = Some (s, out)
           \<and> length (phase_history s) \<le> 7"
    by blast
  with p show ?thesis by blast
qed

text \<open>
  Claim C8, as amended. A state that the switch does not know is reported by a line on
  standard output and by nothing else. In \<^verbatim>\<open>lpcDecStateSampleAdvance\<close> (for the invalid
  state, the 32-bit filler, and also START, which has no case there) the decoder is left as
  it is. In \<^verbatim>\<open>lpcDecStateSampleProcess\<close> on a falling edge with LFRAME# high (for the
  invalid state and the 32-bit filler) the status is 0 as for every sample, the decoder
  is unchanged but for the stored clock level, and the loop of \<^verbatim>\<open>main\<close> goes on with the
  rest of the samples.
\<close>

theorem unknown_state_is_printed_only:
  assumes "unat (idxState s) < aenmState_capacity"
  shows "(current_phase s = LPCDECSTATE_INVALID \<or> current_phase s = LPCDECSTATE_START
            \<or> current_phase s = LPCDECSTATE_32BIT_HACK \<longrightarrow>
          lpcDecStateSampleAdvance s = Some (s, [Unknown_State (current_phase s)]))
       \<and> ((current_phase s = LPCDECSTATE_INVALID \<or> current_phase s = LPCDECSTATE_32BIT_HACK)
            \<and> frame_high_edge s bSample bLad \<longrightarrow>
          lpcDecStateSampleProcess s uSeqNo bSample
            = Some (0, s\<lparr>fClkLast := 0\<rparr>, [Unknown_State (current_phase s)])
          \<and> lpcDecFeed s ((uSeqNo, bSample) # rest)
            = map_option (\<lambda>(s', out). (s', Unknown_State (current_phase s) # out))
                (lpcDecFeed (s\<lparr>fClkLast := 0\<rparr>) rest))"
proof -
  from assms have i: "unat (idxState s) < 9" by (simp add: aenmState_capacity_def)
  have 1: "lpcDecStateSampleAdvance s = Some (s, [Unknown_State (current_phase s)])"
    if "current_phase s = LPCDECSTATE_INVALID \<or> current_phase s = LPCDECSTATE_START
            \<or> current_phase s = LPCDECSTATE_32BIT_HACK"
    using advance_unknown [OF i that] .
  have 2: "lpcDecStateSampleProcess s uSeqNo bSample
            = Some (0, s\<lparr>fClkLast := 0\<rparr>, [Unknown_State (current_phase s)])"
    if "current_phase s = LPCDECSTATE_INVALID \<or> current_phase s = LPCDECSTATE_32BIT_HACK"
      and "frame_high_edge s bSample bLad"
    using that process_frame_high [OF that(2) i, of uSeqNo]
    by (auto simp: sample_done_def)
  have 3: "lpcDecFeed s ((uSeqNo, bSample) # rest)
            = map_option (\<lambda>(s', out). (s', Unknown_State (current_phase s) # out))
                (lpcDecFeed (s\<lparr>fClkLast := 0\<rparr>) rest)"
    if "current_phase s = LPCDECSTATE_INVALID \<or> current_phase s = LPCDECSTATE_32BIT_HACK"
      and "frame_high_edge s bSample bLad"
    using 2 [OF that] by (cases "lpcDecFeed (s\<lparr>fClkLast := 0\<rparr>) rest") auto
  from 1 2 3 show ?thesis by blast
qed

text \<open>A decoder whose chain holds the invalid state.\<close>

theorem unknown_state_is_printed_only_witness:
  "unat (idxState corrupted) < aenmState_capacity
   \<and> current_phase corrupted = LPCDECSTATE_INVALID
   \<and> frame_high_edge corrupted 0x02 0
   \<and> lpcDecStateSampleAdvance corrupted = Some (corrupted, [Unknown_State LPCDECSTATE_INVALID])
   \<and> lpcDecStateSampleProcess corrupted 7 0x02
       = Some (0, corrupted\<lparr>fClkLast := 0\<rparr>, [Unknown_State LPCDECSTATE_INVALID])"
  using unknown_state_is_printed_only [OF corrupted_facts(1), where bSample = "0x02" and bLad = 0 and uSeqNo = 7 and rest = "[]"] corrupted_facts
  by simp

text \<open>The claim as stated, that the condition is reported to the caller as fatal and decoding
  does not go on, fails: on a decoder in the invalid state the status is 0, the same as for
  a sample that does nothing on a sound decoder, and the samples after it are decoded (an
  asserted LFRAME# starts a cycle).\<close>

theorem unknown_state_not_fatal_counterexample:
  "current_phase corrupted = LPCDECSTATE_INVALID
   \<and> lpcDecStateSampleProcess corrupted 7 0x02
       = Some (0, corrupted\<lparr>fClkLast := 0\<rparr>, [Unknown_State LPCDECSTATE_INVALID])
   \<and> lpcDecStateSampleProcess main_init 7 0x02 = Some (0, main_init, [])
   \<and> map_option (phase_history \<circ> fst) (lpcDecFeed corrupted [(7, 0x02), (8, 0x03), (9, 0x00)])
       = Some [LPCDECSTATE_LFRAME_WAIT_ASSERTED, LPCDECSTATE_START]"
proof -
  have a: "lpcDecStateSampleProcess corrupted 7 0x02
       = Some (0, corrupted\<lparr>fClkLast := 0\<rparr>, [Unknown_State LPCDECSTATE_INVALID])"
    using corrupted_facts
    by (simp add: process_frame_high aenmState_capacity_def sample_done_def)
  have b: "lpcDecStateSampleProcess main_init 7 0x02 = Some (0, main_init, [])"
    by (simp add: lpcDecStateSampleProcess_def main_init_defs sample_flag_def shl_int_def)
  have c: "map_option (phase_history \<circ> fst) (lpcDecFeed corrupted [(7, 0x02), (8, 0x03), (9, 0x00)])
       = Some [LPCDECSTATE_LFRAME_WAIT_ASSERTED, LPCDECSTATE_START]"
    by code_simp
  from a b c corrupted_facts(2) show ?thesis by simp
qed

text \<open>
  Claim C9, as amended. The reset gives the state waiting for LFRAME# with address, data and
  data index 0, and resetting twice is resetting once. A completed cycle (a turn-around
  whose predecessor is not the one that leads to SYNC) ends in the reset decoder, and so does
  an unsupported type in the START phase. A cycle aborted by LFRAME# ends otherwise: START is
  pushed after the reset, so the sample leaves the decoder in the START phase, the chain
  being the wait for LFRAME# followed by START, with address, data and data index 0.
\<close>

theorem reset_at_cycle_end:
  assumes "unat (idxState s) < 8"
  shows "current_phase (lpcDecStateReset s) = LPCDECSTATE_LFRAME_WAIT_ASSERTED
       \<and> u32Addr (lpcDecStateReset s) = 0 \<and> bData (lpcDecStateReset s) = 0
       \<and> iDataCycle (lpcDecStateReset s) = 0
       \<and> lpcDecStateReset (lpcDecStateReset s) = lpcDecStateReset s
       \<and> (current_phase s = LPCDECSTATE_TAR \<and> idxState s \<noteq> 0
            \<and> previous_phase s \<noteq> (if fWrite s \<noteq> 0 then LPCDECSTATE_DATA else LPCDECSTATE_ADDR)
           \<longrightarrow> lpcDecStateSampleAdvance s = Some (lpcDecStateReset s, lpcDecStateDump s 0))
       \<and> (bStartLast s = LPC_DEC_START_TARGET_CYCLE
            \<and> LPC_DEC_CYC_TYPE_GET bLad \<noteq> LPC_DEC_CYC_TYPE_IO
            \<and> LPC_DEC_CYC_TYPE_GET bLad \<noteq> LPC_DEC_CYC_TYPE_MEM
           \<longrightarrow> (\<exists>s1. lpcDecStateStartDecode s bLad
                        = Some (lpcDecStateReset s1,
                                [Illegal_Cycle_Type (LPC_DEC_CYC_TYPE_GET bLad)])))
       \<and> (frame_low_edge s bSample bLad
            \<and> current_phase s \<noteq> LPCDECSTATE_LFRAME_WAIT_ASSERTED
            \<and> current_phase s \<noteq> LPCDECSTATE_START
           \<longrightarrow> (\<exists>s'. lpcDecStateSampleProcess s uSeqNo bSample
                        = Some (0, s', lpcDecStateDump s 1)
                      \<and> phase_history s' = [LPCDECSTATE_LFRAME_WAIT_ASSERTED, LPCDECSTATE_START]
                      \<and> current_phase s' = LPCDECSTATE_START
                      \<and> u32Addr s' = 0 \<and> bData s' = 0 \<and> iDataCycle s' = 0))"
proof -
  from assms have i: "unat (idxState s) < 9" by simp
  have r: "current_phase (lpcDecStateReset s) = LPCDECSTATE_LFRAME_WAIT_ASSERTED
       \<and> u32Addr (lpcDecStateReset s) = 0 \<and> bData (lpcDecStateReset s) = 0
       \<and> iDataCycle (lpcDecStateReset s) = 0
       \<and> lpcDecStateReset (lpcDecStateReset s) = lpcDecStateReset s"
    by (simp add: current_phase_reset) (simp add: lpcDecStateReset_def)
  have c: "lpcDecStateSampleAdvance s = Some (lpcDecStateReset s, lpcDecStateDump s 0)"
    if "current_phase s = LPCDECSTATE_TAR \<and> idxState s \<noteq> 0
        \<and> previous_phase s \<noteq> (if fWrite s \<noteq> 0 then LPCDECSTATE_DATA else LPCDECSTATE_ADDR)"
    using that advance_TAR(2) [OF assms] by blast
  have u: "\<exists>s1. lpcDecStateStartDecode s bLad
                  = Some (lpcDecStateReset s1, [Illegal_Cycle_Type (LPC_DEC_CYC_TYPE_GET bLad)])"
    if "bStartLast s = LPC_DEC_START_TARGET_CYCLE
            \<and> LPC_DEC_CYC_TYPE_GET bLad \<noteq> LPC_DEC_CYC_TYPE_IO
            \<and> LPC_DEC_CYC_TYPE_GET bLad \<noteq> LPC_DEC_CYC_TYPE_MEM"
    using that StartDecode_target [OF _ assms, of bLad] by auto
  have a: "\<exists>s'. lpcDecStateSampleProcess s uSeqNo bSample = Some (0, s', lpcDecStateDump s 1)
                      \<and> phase_history s' = [LPCDECSTATE_LFRAME_WAIT_ASSERTED, LPCDECSTATE_START]
                      \<and> current_phase s' = LPCDECSTATE_START
                      \<and> u32Addr s' = 0 \<and> bData s' = 0 \<and> iDataCycle s' = 0"
    if "frame_low_edge s bSample bLad
            \<and> current_phase s \<noteq> LPCDECSTATE_LFRAME_WAIT_ASSERTED
            \<and> current_phase s \<noteq> LPCDECSTATE_START"
  proof -
    from that have e: "frame_low_edge s bSample bLad" by simp
    from frame_low_result [OF e i, of uSeqNo] that show ?thesis by auto
  qed
  from r c u a show ?thesis by blast
qed

text \<open>LFRAME# falls after two address nibbles of the memory write.\<close>

theorem reset_at_cycle_end_witness:
  "unat (idxState mid_address) < 8
   \<and> frame_low_edge mid_address 0x3c 0xf
   \<and> current_phase mid_address = LPCDECSTATE_ADDR
   \<and> current_phase (lpcDecStateReset mid_address) = LPCDECSTATE_LFRAME_WAIT_ASSERTED
   \<and> (\<exists>s'. lpcDecStateSampleProcess mid_address 9 0x3c
              = Some (0, s', lpcDecStateDump mid_address 1)
            \<and> current_phase s' = LPCDECSTATE_START
            \<and> u32Addr s' = 0 \<and> bData s' = 0 \<and> iDataCycle s' = 0)"
proof -
  have i: "unat (idxState mid_address) < 8"
    by (simp add: mid_address_def)
  from reset_at_cycle_end [OF i, where bSample = "0x3c" and bLad = "0xf" and uSeqNo = 9]
    mid_address_facts(2,3) i
  show ?thesis by auto
qed

text \<open>The claim as stated, that after an aborted cycle the current phase is the wait for
  LFRAME#, fails: two address nibbles into the memory write, a clock period with LFRAME# low
  prints the aborted cycle and leaves the decoder in the START phase.\<close>

theorem aborted_cycle_leaves_start_counterexample:
  "map_option (current_phase \<circ> fst)
     (lpcDecFeed main_init (take 8 mem_write_capture)) = Some LPCDECSTATE_ADDR
   \<and> map_option snd
       (lpcDecFeed main_init (take 8 mem_write_capture @ clock_period 8 False 0xf))
       = Some [Decoded_Cycle
                \<lparr>cl_seq = 1, cl_typ = 1, cl_write = True, cl_addr = 0x12000000, cl_data = 0,
                 cl_chain = [LPCDECSTATE_LFRAME_WAIT_ASSERTED, LPCDECSTATE_START,
                             LPCDECSTATE_ADDR],
                 cl_abort = True\<rparr>]
   \<and> map_option (current_phase \<circ> fst)
       (lpcDecFeed main_init (take 8 mem_write_capture @ clock_period 8 False 0xf))
       = Some LPCDECSTATE_START
   \<and> LPCDECSTATE_START \<noteq> LPCDECSTATE_LFRAME_WAIT_ASSERTED"
  by code_simp

text \<open>
  Claim C10. \<^verbatim>\<open>lpcDecStateReset\<close> changes the index of the state chain (the history
  becomes exactly the single state waiting for LFRAME#, entry 0 of the array being written),
  the address, the data byte and the index of the data nibble; the entries of the array above
  0, the six bit numbers, the last clock level, the last START nibble, the cycle type, the
  direction, the sequence number of the cycle and the three counters of address, turn-around
  and data nibbles keep their values. In particular the START nibble and the sequence number
  stored when LFRAME# was seen asserted are still there after the reset that follows.
\<close>

theorem lpcDecStateReset_frame:
  "phase_history (lpcDecStateReset s) = [LPCDECSTATE_LFRAME_WAIT_ASSERTED]
   \<and> idxState (lpcDecStateReset s) = 0
   \<and> u32Addr (lpcDecStateReset s) = 0
   \<and> bData (lpcDecStateReset s) = 0
   \<and> iDataCycle (lpcDecStateReset s) = 0
   \<and> (\<forall>i. i \<noteq> 0 \<longrightarrow> aenmState (lpcDecStateReset s) i = aenmState s i)
   \<and> u8BitLClk (lpcDecStateReset s) = u8BitLClk s
   \<and> u8BitLFrame (lpcDecStateReset s) = u8BitLFrame s
   \<and> u8BitLad0 (lpcDecStateReset s) = u8BitLad0 s
   \<and> u8BitLad1 (lpcDecStateReset s) = u8BitLad1 s
   \<and> u8BitLad2 (lpcDecStateReset s) = u8BitLad2 s
   \<and> u8BitLad3 (lpcDecStateReset s) = u8BitLad3 s
   \<and> fClkLast (lpcDecStateReset s) = fClkLast s
   \<and> bStartLast (lpcDecStateReset s) = bStartLast s
   \<and> bTyp (lpcDecStateReset s) = bTyp s
   \<and> fWrite (lpcDecStateReset s) = fWrite s
   \<and> uSeqNoCycle (lpcDecStateReset s) = uSeqNoCycle s
   \<and> cAddrCycles (lpcDecStateReset s) = cAddrCycles s
   \<and> cTarCycles (lpcDecStateReset s) = cTarCycles s
   \<and> cDataCycles (lpcDecStateReset s) = cDataCycles s
   \<and> bStartLast (lpcDecStateReset (s\<lparr>bStartLast := bLad, uSeqNoCycle := uSeqNo\<rparr>)) = bLad
   \<and> uSeqNoCycle (lpcDecStateReset (s\<lparr>bStartLast := bLad, uSeqNoCycle := uSeqNo\<rparr>)) = uSeqNo"
  by (simp add: phase_history_reset) (simp add: lpcDecStateReset_def)

theorem lpcDecStateReset_frame_witness:
  "phase_history (lpcDecStateReset mid_address) = [LPCDECSTATE_LFRAME_WAIT_ASSERTED]
   \<and> aenmState (lpcDecStateReset mid_address) 2 = LPCDECSTATE_ADDR
   \<and> cAddrCycles (lpcDecStateReset mid_address) = 6
   \<and> bStartLast (lpcDecStateReset (mid_address\<lparr>bStartLast := 0xf, uSeqNoCycle := 9\<rparr>)) = 0xf"
proof -
  have a: "aenmState mid_address 2 = LPCDECSTATE_ADDR" "cAddrCycles mid_address = 6"
    by (simp_all add: mid_address_def)
  have n: "(2::nat) \<noteq> 0" by simp
  from lpcDecStateReset_frame [where s = mid_address and bLad = "0xf" and uSeqNo = 9] n
  have "phase_history (lpcDecStateReset mid_address) = [LPCDECSTATE_LFRAME_WAIT_ASSERTED]"
    and "aenmState (lpcDecStateReset mid_address) 2 = aenmState mid_address 2"
    and "cAddrCycles (lpcDecStateReset mid_address) = cAddrCycles mid_address"
    and "bStartLast (lpcDecStateReset (mid_address\<lparr>bStartLast := 0xf, uSeqNoCycle := 9\<rparr>)) = 0xf"
    by simp_all
  with a show ?thesis by simp
qed

end
